theory Spec2Isabelle
  imports Complex_Main "HOL-Library.Sublist"
begin

section \<open>Thiran: permission gate, agent loop and provider adapters\<close>

text \<open>
  A shallow embedding of the TypeScript sources \<^verbatim>\<open>src/types.ts\<close>,
  \<^verbatim>\<open>src/security/permissions.ts\<close>, \<^verbatim>\<open>src/core/agent.ts\<close>,
  \<^verbatim>\<open>src/providers/anthropic.ts\<close>, \<^verbatim>\<open>src/providers/openai.ts\<close>,
  \<^verbatim>\<open>src/providers/ollama.ts\<close> and the callbacks of \<^verbatim>\<open>src/ui/App.tsx\<close>.

  Conventions.
  \<^item> A JavaScript string is the \<open>string\<close> of its UTF-8 encoding, one \<open>char\<close> a byte.
    Concatenation, equality, \<open>startsWith\<close> (\<open>prefix\<close>) and the search for a literal text
    are the same on the encoding (no encoded character starts inside another one); a
    character class is applied to whole encoded characters (\<open>whiteSpaces\<close>).
  \<^item> An optional field is an \<open>option\<close>; a JavaScript \<open>Set\<close> is a duplicate-free list in
    insertion order (\<open>set_add\<close>, membership by \<open>\<in> set\<close>).
  \<^item> An \<open>async\<close> function that talks to the outside (the approval prompt, a tool's
    \<open>execute\<close>, the provider, a UI callback) is a function on an explicit world \<open>'w\<close>:
    it takes the world and returns its answer with the new world. The callers thread the
    world in the order in which the source awaits.
  \<^item> An exception is a value: \<open>Inl\<close> of a sum, or a constructor of an outcome datatype.
  \<^item> Record fields keep the source's names; where two interfaces share a field name
    the later one is prefixed (\<open>tcId\<close>, \<open>tcName\<close> of ToolCall; \<open>chunkType\<close>, \<open>chunkContent\<close>,
    \<open>chunkError\<close> of StreamChunk; \<open>toolOutput\<close>, \<open>toolError\<close> of ToolResult; \<open>actionType\<close>
    for \<open>type\<close>).
\<close>

subsection \<open>Strings and sets of the platform\<close>

definition whiteSpaces :: "string list" where
  \<comment> \<open>the code points of \<open>\s\<close> (and of \<open>trim\<close>), each in UTF-8:
      U+0009 to U+000D, U+0020, U+00A0, U+1680, U+2000 to U+200A, U+2028, U+2029, U+202F,
      U+205F, U+3000, U+FEFF\<close>
  "whiteSpaces =
     [[CHR 0x09], [CHR 0x0A], [CHR 0x0B], [CHR 0x0C], [CHR 0x0D], [CHR 0x20],
      [CHR 0xC2, CHR 0xA0], [CHR 0xE1, CHR 0x9A, CHR 0x80],
      [CHR 0xE2, CHR 0x80, CHR 0x80], [CHR 0xE2, CHR 0x80, CHR 0x81],
      [CHR 0xE2, CHR 0x80, CHR 0x82], [CHR 0xE2, CHR 0x80, CHR 0x83],
      [CHR 0xE2, CHR 0x80, CHR 0x84], [CHR 0xE2, CHR 0x80, CHR 0x85],
      [CHR 0xE2, CHR 0x80, CHR 0x86], [CHR 0xE2, CHR 0x80, CHR 0x87],
      [CHR 0xE2, CHR 0x80, CHR 0x88], [CHR 0xE2, CHR 0x80, CHR 0x89],
      [CHR 0xE2, CHR 0x80, CHR 0x8A], [CHR 0xE2, CHR 0x80, CHR 0xA8],
      [CHR 0xE2, CHR 0x80, CHR 0xA9], [CHR 0xE2, CHR 0x80, CHR 0xAF],
      [CHR 0xE2, CHR 0x81, CHR 0x9F], [CHR 0xE3, CHR 0x80, CHR 0x80],
      [CHR 0xEF, CHR 0xBB, CHR 0xBF]]"

definition whiteLen :: "string \<Rightarrow> nat" where
  \<comment> \<open>the length of the white-space character the text starts with, \<open>0\<close> if it starts with none\<close>
  "whiteLen s = (case find (\<lambda>ws. prefix ws s) whiteSpaces of Some ws \<Rightarrow> length ws | None \<Rightarrow> 0)"

definition whiteLenEnd :: "string \<Rightarrow> nat" where
  \<comment> \<open>the same for the character the text ends with\<close>
  "whiteLenEnd s = (case find (\<lambda>ws. suffix ws s) whiteSpaces of Some ws \<Rightarrow> length ws | None \<Rightarrow> 0)"

lemma whiteLen_le: "whiteLen s \<le> length s"
  by (auto simp: whiteLen_def find_Some_iff prefix_length_le split: option.splits)

lemma whiteLenEnd_le: "whiteLenEnd s \<le> length s"
  by (auto simp: whiteLenEnd_def find_Some_iff suffix_length_le split: option.splits)

function trimStart :: "string \<Rightarrow> string" where
  \<comment> \<open>\<open>s.trimStart()\<close>; also what a greedy \<open>\s*\<close> leaves of a text\<close>
  "trimStart s = (if whiteLen s = 0 then s else trimStart (drop (whiteLen s) s))"
  by pat_completeness auto
termination
proof (relation "measure length")
  show "wf (measure length)" by simp
next
  fix s :: string
  assume "whiteLen s \<noteq> 0"
  moreover have "whiteLen s \<le> length s" by (rule whiteLen_le)
  ultimately show "(drop (whiteLen s) s, s) \<in> measure length" by simp
qed

function trimEnd :: "string \<Rightarrow> string" where
  "trimEnd s = (if whiteLenEnd s = 0 then s else trimEnd (take (length s - whiteLenEnd s) s))"
  by pat_completeness auto
termination
proof (relation "measure length")
  show "wf (measure length)" by simp
next
  fix s :: string
  assume "whiteLenEnd s \<noteq> 0"
  moreover have "whiteLenEnd s \<le> length s" by (rule whiteLenEnd_le)
  ultimately show "(take (length s - whiteLenEnd s) s, s) \<in> measure length" by simp
qed

declare trimStart.simps [simp del] trimEnd.simps [simp del]

definition trim :: "string \<Rightarrow> string" where
  "trim s = trimEnd (trimStart s)"

fun firstToken :: "string \<Rightarrow> string" where
  \<comment> \<open>\<open>s.split(/\s+/)[0]\<close>: the text before the first white-space character\<close>
  "firstToken [] = []"
| "firstToken (c # s) = (if whiteLen (c # s) \<noteq> 0 then [] else c # firstToken s)"

definition firstLine :: "string \<Rightarrow> string" where
  \<comment> \<open>\<open>s.split('\n')[0]\<close>\<close>
  "firstLine s = takeWhile (\<lambda>c. c \<noteq> CHR 0x0A) s"





definition set_add :: "'a \<Rightarrow> 'a list \<Rightarrow> 'a list" where
  \<comment> \<open>\<open>Set.prototype.add\<close>\<close>
  "set_add x xs = (if x \<in> set xs then xs else xs @ [x])"

datatype js_error = TypeError

subsection \<open>JSON values\<close>

datatype json =
    JNull
  | JBool bool
  | JNumber real
  | JString string
  | JArray "json list"
  | JObject "(string \<times> json) list"


subsection \<open>types.ts\<close>

datatype ApprovalMode = SUGGEST | AUTO_EDIT | FULL_AUTO

datatype action_type =
    T_read | T_write | T_execute
  | T_file_read | T_file_write | T_file_edit | T_bash_execute | T_web_fetch

record PermissionAction =
  actionType :: action_type
  path :: "string option"
  command :: "string option"
  url :: "string option"
  toolName :: "string option"
  toolArgs :: "json option"

record PermissionResult =
  granted :: bool
  reason :: "string option"

record decision =
  allow :: bool
  remember :: bool

subsection \<open>security/permissions.ts: DefaultPermissionManager\<close>

record 'w DefaultPermissionManager =
  allowedPaths :: "string list"
  allowedCommands :: "string list"
  allowedUrls :: "string list"
  approvalMode :: ApprovalMode
  promptFn :: "PermissionAction \<Rightarrow> 'w \<Rightarrow> decision \<times> 'w"
  workingDirectory :: string

definition newPermissionManager ::
  "ApprovalMode \<Rightarrow> string \<Rightarrow> (PermissionAction \<Rightarrow> 'w \<Rightarrow> decision \<times> 'w)
    \<Rightarrow> 'w DefaultPermissionManager" where
  \<comment> \<open>the constructor: the working directory is added to the allowed paths\<close>
  "newPermissionManager mode wd prompt =
     \<lparr> allowedPaths = set_add wd [], allowedCommands = [], allowedUrls = [],
       approvalMode = mode, promptFn = prompt, workingDirectory = wd \<rparr>"

definition action :: "action_type \<Rightarrow> PermissionAction" where
  \<comment> \<open>an object literal \<open>{ type: t }\<close>; the callers set the fields they give\<close>
  "action t = \<lparr> actionType = t, path = None, command = None, url = None,
                toolName = None, toolArgs = None \<rparr>"

definition isPathAllowed :: "'w DefaultPermissionManager \<Rightarrow> string \<Rightarrow> bool" where
  "isPathAllowed m filePath =
     (if filePath \<in> set (allowedPaths m) then True
      else if prefix (workingDirectory m) filePath then True
      else list_ex (\<lambda>allowedPath. prefix (allowedPath @ ''/'') filePath) (allowedPaths m))"

definition userDenied :: "bool \<Rightarrow> PermissionResult" where
  \<comment> \<open>\<open>{ granted: decision.allow, reason: decision.allow ? undefined : 'User denied permission' }\<close>\<close>
  "userDenied a = \<lparr> granted = a, reason = (if a then None else Some ''User denied permission'') \<rparr>"

definition grantedResult :: PermissionResult where
  "grantedResult = \<lparr> granted = True, reason = None \<rparr>"

type_synonym 'w perm_outcome = "(js_error + PermissionResult) \<times> 'w DefaultPermissionManager \<times> 'w"

definition checkFileRead ::
  "'w DefaultPermissionManager \<Rightarrow> string \<Rightarrow> 'w \<Rightarrow> 'w perm_outcome" where
  "checkFileRead m filePath w =
     (if isPathAllowed m filePath then (Inr grantedResult, m, w)
      else
        (case promptFn m ((action T_file_read)\<lparr>path := Some filePath\<rparr>) w of (d, w') \<Rightarrow>
           (Inr (userDenied (allow d)),
            (if allow d \<and> remember d
             then m\<lparr>allowedPaths := set_add filePath (allowedPaths m)\<rparr> else m),
            w')))"

definition checkFileWrite ::
  "'w DefaultPermissionManager \<Rightarrow> string \<Rightarrow> 'w \<Rightarrow> 'w perm_outcome" where
  "checkFileWrite m filePath w =
     (if approvalMode m = AUTO_EDIT \<and> isPathAllowed m filePath then (Inr grantedResult, m, w)
      else if isPathAllowed m filePath \<and> approvalMode m = AUTO_EDIT then (Inr grantedResult, m, w)
      else
        (case promptFn m ((action T_file_write)\<lparr>path := Some filePath\<rparr>) w of (d, w') \<Rightarrow>
           (Inr (userDenied (allow d)),
            (if allow d \<and> remember d
             then m\<lparr>allowedPaths := set_add filePath (allowedPaths m)\<rparr> else m),
            w')))"

definition safeCommands :: "string list" where
  "safeCommands =
     [''ls'', ''pwd'', ''echo'', ''cat'', ''head'', ''tail'', ''wc'',
      ''date'', ''whoami'', ''which'', ''type'', ''file'',
      ''git status'', ''git diff'', ''git log'', ''git branch'']"

definition checkBashExecute ::
  "'w DefaultPermissionManager \<Rightarrow> string \<Rightarrow> 'w \<Rightarrow> 'w perm_outcome" where
  "checkBashExecute m cmd w =
     (let pre = firstToken cmd in
      if pre \<in> set (allowedCommands m) then (Inr grantedResult, m, w)
      else if pre \<in> set safeCommands \<or> trim (firstLine cmd) \<in> set safeCommands
      then (Inr grantedResult, m, w)
      else
        (case promptFn m ((action T_bash_execute)\<lparr>command := Some cmd\<rparr>) w of (d, w') \<Rightarrow>
           (Inr (userDenied (allow d)),
            (if allow d \<and> remember d
             then m\<lparr>allowedCommands := set_add pre (allowedCommands m)\<rparr> else m),
            w')))"

text \<open>
  \<open>new URL(url).hostname\<close> is the platform's; the model takes it as the parameter
  \<open>hostname\<close>, \<open>None\<close> where the constructor throws. \<open>checkWebFetch\<close> is called with
  \<open>action.url!\<close>: an absent url makes the constructor throw inside the \<open>try\<close>.
\<close>

definition checkWebFetch ::
  "(string \<Rightarrow> string option) \<Rightarrow> 'w DefaultPermissionManager \<Rightarrow> string option \<Rightarrow> 'w
    \<Rightarrow> 'w perm_outcome" where
  "checkWebFetch hostname m u w =
     (case (case u of None \<Rightarrow> None | Some s \<Rightarrow> map_option (Pair s) (hostname s)) of
        None \<Rightarrow> (Inr \<lparr> granted = False, reason = Some ''Invalid URL'' \<rparr>, m, w)
      | Some (s, host) \<Rightarrow>
          if host \<in> set (allowedUrls m) then (Inr grantedResult, m, w)
          else
            (case promptFn m ((action T_web_fetch)\<lparr>url := Some s\<rparr>) w of (d, w') \<Rightarrow>
               (Inr (userDenied (allow d)),
                (if allow d \<and> remember d
                 then m\<lparr>allowedUrls := set_add host (allowedUrls m)\<rparr> else m),
                w')))"

text \<open>
  \<open>checkPermission\<close>. The file and shell checks receive \<open>action.path!\<close> and
  \<open>action.command!\<close>; on an absent field they call a method of \<open>undefined\<close>
  (\<open>startsWith\<close>, \<open>split\<close>), which throws a TypeError before any state changes.
\<close>

definition checkPermission ::
  "(string \<Rightarrow> string option) \<Rightarrow> 'w DefaultPermissionManager \<Rightarrow> PermissionAction \<Rightarrow> 'w
    \<Rightarrow> 'w perm_outcome" where
  "checkPermission hostname m a w =
     (if approvalMode m = FULL_AUTO then (Inr grantedResult, m, w)
      else
        (case actionType a of
           T_file_read \<Rightarrow>
             (case path a of None \<Rightarrow> (Inl TypeError, m, w) | Some p \<Rightarrow> checkFileRead m p w)
         | T_file_write \<Rightarrow>
             (case path a of None \<Rightarrow> (Inl TypeError, m, w) | Some p \<Rightarrow> checkFileWrite m p w)
         | T_file_edit \<Rightarrow>
             (case path a of None \<Rightarrow> (Inl TypeError, m, w) | Some p \<Rightarrow> checkFileWrite m p w)
         | T_bash_execute \<Rightarrow>
             (case command a of None \<Rightarrow> (Inl TypeError, m, w) | Some c \<Rightarrow> checkBashExecute m c w)
         | T_web_fetch \<Rightarrow> checkWebFetch hostname m (url a) w
         | _ \<Rightarrow> (Inr \<lparr> granted = False, reason = Some ''Unknown action type'' \<rparr>, m, w)))"

definition addToAllowList ::
  "(string \<Rightarrow> string option) \<Rightarrow> 'w DefaultPermissionManager \<Rightarrow> PermissionAction
    \<Rightarrow> 'w DefaultPermissionManager" where
  "addToAllowList hostname m a =
     (let addPath =
        (case path a of
           Some p \<Rightarrow> if p \<noteq> [] then m\<lparr>allowedPaths := set_add p (allowedPaths m)\<rparr> else m
         | None \<Rightarrow> m)
      in
      case actionType a of
        T_file_read \<Rightarrow> addPath
      | T_file_write \<Rightarrow> addPath
      | T_file_edit \<Rightarrow> addPath
      | T_bash_execute \<Rightarrow>
          (case command a of
             Some c \<Rightarrow>
               if c \<noteq> [] then m\<lparr>allowedCommands := set_add (firstToken c) (allowedCommands m)\<rparr>
               else m
           | None \<Rightarrow> m)
      | T_web_fetch \<Rightarrow>
          (case url a of
             Some u \<Rightarrow>
               if u \<noteq> [] then
                 (case hostname u of
                    Some host \<Rightarrow> m\<lparr>allowedUrls := set_add host (allowedUrls m)\<rparr>
                  | None \<Rightarrow> m)
               else m
           | None \<Rightarrow> m)
      | _ \<Rightarrow> m)"

text \<open>
  The conditions under which \<open>checkPermission\<close> arrives at \<open>await this.promptFn(...)\<close>:
  the mode is not full-auto, the action is of one of the five kinds with a check, its
  field is present, and none of the early \<open>return { granted: true }\<close> of that check (nor
  the \<open>catch\<close> of \<open>checkWebFetch\<close>) is taken. That \<open>checkPermission\<close> consults the prompt
  exactly under these conditions is proved among the properties of the permission gate.
\<close>

definition promptReached ::
  "(string \<Rightarrow> string option) \<Rightarrow> 'w DefaultPermissionManager \<Rightarrow> PermissionAction \<Rightarrow> bool" where
  "promptReached hostname m a =
     (approvalMode m \<noteq> FULL_AUTO \<and>
      (case actionType a of
         T_file_read \<Rightarrow>
           (case path a of Some p \<Rightarrow> \<not> isPathAllowed m p | None \<Rightarrow> False)
       | T_file_write \<Rightarrow>
           (case path a of
              Some p \<Rightarrow> \<not> (approvalMode m = AUTO_EDIT \<and> isPathAllowed m p) | None \<Rightarrow> False)
       | T_file_edit \<Rightarrow>
           (case path a of
              Some p \<Rightarrow> \<not> (approvalMode m = AUTO_EDIT \<and> isPathAllowed m p) | None \<Rightarrow> False)
       | T_bash_execute \<Rightarrow>
           (case command a of
              Some c \<Rightarrow>
                firstToken c \<notin> set (allowedCommands m) \<and> firstToken c \<notin> set safeCommands \<and>
                trim (firstLine c) \<notin> set safeCommands
            | None \<Rightarrow> False)
       | T_web_fetch \<Rightarrow>
           (case url a of
              Some u \<Rightarrow>
                (case hostname u of Some host \<Rightarrow> host \<notin> set (allowedUrls m) | None \<Rightarrow> False)
            | None \<Rightarrow> False)
       | _ \<Rightarrow> False))"

text \<open>A prompt used at concrete inputs: it denies, and the world is the log of what it was asked.\<close>

definition denyPrompt :: "PermissionAction \<Rightarrow> PermissionAction list \<Rightarrow> decision \<times> PermissionAction list" where
  \<comment> \<open>\<open>async (action) => ({ allow: false, remember: false })\<close>, logging the request\<close>
  "denyPrompt a w = (\<lparr> allow = False, remember = False \<rparr>, w @ [a])"

definition noHostname :: "string \<Rightarrow> string option" where
  \<comment> \<open>stands for \<open>new URL\<close> where no url is parsed\<close>
  "noHostname u = None"

subsection \<open>types.ts: messages, tool calls, stream chunks, tools\<close>

record ToolCall =
  tcId :: string
  tcName :: string
  arguments :: json

datatype role = R_user | R_assistant | R_system | R_tool

record Message =
  role :: role
  content :: string
  toolCallId :: "string option"
  toolCalls :: "ToolCall list option"

record ToolResult =
  success :: bool
  toolOutput :: string
  toolError :: "string option"

datatype chunk_type = C_text | C_tool_call | C_tool_call_delta | C_done | C_error

text \<open>A chunk's \<open>error\<close> is an \<open>Error\<close> object; the model keeps its message.\<close>

record StreamChunk =
  chunkType :: chunk_type
  chunkContent :: "string option"
  toolCall :: "ToolCall option"
  delta :: "string option"
  chunkError :: "string option"

definition chunk :: "chunk_type \<Rightarrow> StreamChunk" where
  \<comment> \<open>an object literal \<open>{ type: t }\<close>\<close>
  "chunk t = \<lparr> chunkType = t, chunkContent = None, toolCall = None, delta = None,
               chunkError = None \<rparr>"

text \<open>
  \<open>Tool.execute(params, context)\<close> returns a result or throws; \<open>Threw\<close> carries
  \<open>error instanceof Error ? error.message : String(error)\<close>. The execution context is the
  same object at every call of a run, so it is part of the tool's closure here. The
  descriptive fields of a tool (\<open>description\<close>, \<open>parameters\<close>) are read by no function of
  this theory.
\<close>

datatype exec_outcome = Returned ToolResult | Threw string

record 'w Tool =
  name :: string
  execute :: "json \<Rightarrow> 'w \<Rightarrow> exec_outcome \<times> 'w"

subsection \<open>core/agent.ts\<close>

text \<open>
  The callbacks act on the world and do not throw. \<open>onError\<close> receives the \<open>Error\<close>'s
  message.
\<close>

record 'w AgentCallbacks =
  onText :: "string \<Rightarrow> 'w \<Rightarrow> 'w"
  onToolCallStart :: "ToolCall \<Rightarrow> 'w \<Rightarrow> 'w"
  onToolCallEnd :: "ToolCall \<Rightarrow> string \<Rightarrow> 'w \<Rightarrow> 'w"
  onError :: "string \<Rightarrow> 'w \<Rightarrow> 'w"
  onDone :: "'w \<Rightarrow> 'w"
  onPermissionRequest :: "(ToolCall \<Rightarrow> 'w \<Rightarrow> decision \<times> 'w) option"

text \<open>
  The agent. \<open>provider\<close> is \<open>provider.chat(messages, options)\<close> with the options of the
  agent (model, tools, system prompt) fixed: it answers a history with a finite stream of
  chunks, and what the request does to the world is done when the first chunk is read.
  The adapters of this repository catch every exception and yield it as an \<open>error\<close>
  chunk, so the stream itself does not throw. \<open>configApprovalMode\<close> is
  \<open>config.approvalMode\<close>. The fields \<open>permissions\<close> and \<open>workingDirectory\<close> are only handed
  to the tools inside the execution context.
\<close>

record 'w Agent =
  provider :: "Message list \<Rightarrow> 'w \<Rightarrow> StreamChunk list \<times> 'w"
  tools :: "'w Tool list"
  configApprovalMode :: ApprovalMode
  messages :: "Message list"

definition toolNeedsApproval :: "ApprovalMode \<Rightarrow> string \<Rightarrow> json \<Rightarrow> bool" where
  "toolNeedsApproval mode toolName' args =
     (if mode = SUGGEST \<and> toolName' \<in> set [''read_file'', ''glob'', ''grep''] then False
      else if toolName' \<in> set [''write_file'', ''edit_file'', ''bash''] then True
      else False)"

definition toolMessage :: "string \<Rightarrow> ToolCall \<Rightarrow> Message" where
  \<comment> \<open>\<open>{ role: 'tool', content: c, toolCallId: toolCall.id }\<close>\<close>
  "toolMessage c tc = \<lparr> role = R_tool, content = c, toolCallId = Some (tcId tc), toolCalls = None \<rparr>"

definition push :: "Message \<Rightarrow> 'w Agent \<Rightarrow> 'w Agent" where
  \<comment> \<open>\<open>this.messages.push(m)\<close>\<close>
  "push m ag = ag\<lparr>messages := messages ag @ [m]\<rparr>"

definition report :: "'w AgentCallbacks \<Rightarrow> ToolCall \<Rightarrow> string \<Rightarrow> 'w Agent \<Rightarrow> 'w \<Rightarrow> 'w Agent \<times> 'w" where
  \<comment> \<open>the pair of statements that ends every branch of the loop body:
      \<open>this.messages.push({role: 'tool', content, toolCallId}); callbacks.onToolCallEnd(toolCall, content)\<close>\<close>
  "report cb tc c ag w = (push (toolMessage c tc) ag, onToolCallEnd cb tc c w)"

definition requestApproval ::
  "'w AgentCallbacks \<Rightarrow> 'w Agent \<Rightarrow> 'w Tool \<Rightarrow> ToolCall \<Rightarrow> 'w \<Rightarrow> bool \<times> 'w" where
  \<comment> \<open>the permission block of the loop body; \<open>False\<close> where the block ends in \<open>continue\<close>\<close>
  "requestApproval cb ag tool tc w =
     (case onPermissionRequest cb of
        Some ask \<Rightarrow>
          if configApprovalMode ag \<noteq> FULL_AUTO then
            (if toolNeedsApproval (configApprovalMode ag) (name tool) (arguments tc) then
               (case ask tc w of (d, w1) \<Rightarrow> (allow d, w1))
             else (True, w))
          else (True, w)
      | None \<Rightarrow> (True, w))"

definition runTool ::
  "'w AgentCallbacks \<Rightarrow> 'w Agent \<Rightarrow> 'w Tool \<Rightarrow> ToolCall \<Rightarrow> 'w \<Rightarrow> 'w Agent \<times> 'w" where
  \<comment> \<open>the \<open>try\<close>/\<open>catch\<close> around \<open>tool.execute\<close>; an absent \<open>result.error\<close> prints as
      \<open>undefined\<close> in the template\<close>
  "runTool cb ag tool tc w =
     (case execute tool (arguments tc) w of
        (Returned result, w1) \<Rightarrow>
          report cb tc
            (if success result then toolOutput result
             else ''Error: '' @ (case toolError result of Some e \<Rightarrow> e | None \<Rightarrow> ''undefined'')
                  @ [CHR 0x0A] @ toolOutput result)
            ag w1
      | (Threw errorMessage, w1) \<Rightarrow>
          report cb tc (''Tool execution failed: '' @ errorMessage) ag w1)"

definition executeToolCall ::
  "'w AgentCallbacks \<Rightarrow> 'w Agent \<Rightarrow> ToolCall \<Rightarrow> 'w \<Rightarrow> 'w Agent \<times> 'w" where
  \<comment> \<open>the body of the \<open>for\<close> loop of \<open>executeToolCalls\<close>\<close>
  "executeToolCall cb ag tc w =
     (case find (\<lambda>t. name t = tcName tc) (tools ag) of
        None \<Rightarrow> report cb tc (''Tool not found: '' @ tcName tc) ag w
      | Some tool \<Rightarrow>
          (case requestApproval cb ag tool tc w of
             (False, w1) \<Rightarrow> report cb tc ''Tool execution denied by user'' ag w1
           | (True, w1) \<Rightarrow> runTool cb ag tool tc w1))"

fun executeToolCalls ::
  "'w AgentCallbacks \<Rightarrow> 'w Agent \<Rightarrow> ToolCall list \<Rightarrow> 'w \<Rightarrow> 'w Agent \<times> 'w" where
  "executeToolCalls cb ag [] w = (ag, w)"
| "executeToolCalls cb ag (tc # rest) w =
     (case executeToolCall cb ag tc w of (ag1, w1) \<Rightarrow> executeToolCalls cb ag1 rest w1)"

text \<open>
  \<open>getCompletion\<close>. The loop over the stream keeps \<open>textContent\<close>, \<open>toolCalls\<close> and the
  assistant messages it has pushed. A pushed message holds the array \<open>toolCalls\<close> itself
  (when it is non-empty at the push), not a copy, so a tool call that arrives after a
  \<open>done\<close> chunk shows in the message too: \<open>pushed\<close> keeps the content and whether the
  array was attached, and \<open>assistantMessages\<close> reads the array when the loop has ended.
\<close>

fun consumeStream ::
  "'w AgentCallbacks \<Rightarrow> StreamChunk list \<Rightarrow> string \<Rightarrow> ToolCall list \<Rightarrow> (string \<times> bool) list \<Rightarrow> 'w
    \<Rightarrow> string option \<times> ToolCall list \<times> (string \<times> bool) list \<times> 'w" where
  "consumeStream cb [] textContent tcs pushed w = (None, tcs, pushed, w)"
| "consumeStream cb (c # rest) textContent tcs pushed w =
     (case chunkType c of
        C_text \<Rightarrow>
          (case chunkContent c of
             Some t \<Rightarrow>
               if t \<noteq> [] then consumeStream cb rest (textContent @ t) tcs pushed (onText cb t w)
               else consumeStream cb rest textContent tcs pushed w
           | None \<Rightarrow> consumeStream cb rest textContent tcs pushed w)
      | C_tool_call \<Rightarrow>
          (case toolCall c of
             Some tc \<Rightarrow> consumeStream cb rest textContent (tcs @ [tc]) pushed (onToolCallStart cb tc w)
           | None \<Rightarrow> consumeStream cb rest textContent tcs pushed w)
      | C_error \<Rightarrow>
          (case chunkError c of
             Some e \<Rightarrow> (Some e, tcs, pushed, w)
           | None \<Rightarrow> consumeStream cb rest textContent tcs pushed w)
      | C_done \<Rightarrow>
          if textContent \<noteq> [] \<or> length tcs > 0
          then consumeStream cb rest textContent tcs (pushed @ [(textContent, length tcs > 0)]) w
          else consumeStream cb rest textContent tcs pushed w
      | C_tool_call_delta \<Rightarrow> consumeStream cb rest textContent tcs pushed w)"

definition assistantMessages :: "(string \<times> bool) list \<Rightarrow> ToolCall list \<Rightarrow> Message list" where
  "assistantMessages pushed tcs =
     map (\<lambda>(t, attached).
            \<lparr> role = R_assistant, content = t, toolCallId = None,
              toolCalls = (if attached then Some tcs else None) \<rparr>) pushed"

definition getCompletion ::
  "'w AgentCallbacks \<Rightarrow> 'w Agent \<Rightarrow> 'w \<Rightarrow> (string + bool \<times> ToolCall list) \<times> 'w Agent \<times> 'w" where
  "getCompletion cb ag w =
     (case provider ag (messages ag) w of (stream, w1) \<Rightarrow>
        (case consumeStream cb stream [] [] [] w1 of (thrown, tcs, pushed, w2) \<Rightarrow>
           (case thrown of
              Some e \<Rightarrow> Inl e
            | None \<Rightarrow> Inr (length tcs = 0, tcs),
            ag\<lparr>messages := messages ag @ assistantMessages pushed tcs\<rparr>,
            w2)))"

fun proposals :: "StreamChunk list \<Rightarrow> ToolCall list" where
  \<comment> \<open>the tool calls a stream proposes: its \<open>tool_call\<close> chunks that carry a call, in order\<close>
  "proposals [] = []"
| "proposals (c # rest) =
     (if chunkType c = C_tool_call then
        (case toolCall c of Some tc \<Rightarrow> tc # proposals rest | None \<Rightarrow> proposals rest)
      else proposals rest)"

fun firstError :: "StreamChunk list \<Rightarrow> string option" where
  \<comment> \<open>the error of the first \<open>error\<close> chunk of a stream that carries one: what
      \<open>throw chunk.error\<close> throws, \<open>None\<close> if the loop reads the stream to its end\<close>
  "firstError [] = None"
| "firstError (c # rest) =
     (if chunkType c = C_error then
        (case chunkError c of Some e \<Rightarrow> Some e | None \<Rightarrow> firstError rest)
      else firstError rest)"

definition maxIterations :: nat where
  "maxIterations = 20"

text \<open>
  The \<open>while\<close> loop of \<open>run\<close>, from a value of \<open>iterations\<close>; it returns the final
  \<open>iterations\<close>. A \<open>break\<close> is a return.
\<close>

function agentLoop ::
  "'w AgentCallbacks \<Rightarrow> nat \<Rightarrow> 'w Agent \<Rightarrow> 'w \<Rightarrow> nat \<times> 'w Agent \<times> 'w" where
  "agentLoop cb iterations ag w =
     (if iterations < maxIterations then
        (case getCompletion cb ag w of
           (Inl e, ag1, w1) \<Rightarrow> (Suc iterations, ag1, onError cb e w1)
         | (Inr (done, tcs), ag1, w1) \<Rightarrow>
             if done then (Suc iterations, ag1, onDone cb w1)
             else if length tcs > 0 then
               (case executeToolCalls cb ag1 tcs w1 of (ag2, w2) \<Rightarrow>
                  agentLoop cb (Suc iterations) ag2 w2)
             else (Suc iterations, ag1, onDone cb w1))
      else (iterations, ag, w))"
  by pat_completeness auto
termination
  by (relation "measure (\<lambda>(cb, iterations, ag, w). maxIterations - iterations)") auto

declare agentLoop.simps [simp del]

definition run :: "string \<Rightarrow> 'w AgentCallbacks \<Rightarrow> 'w Agent \<Rightarrow> 'w \<Rightarrow> 'w Agent \<times> 'w" where
  "run userMessage cb ag w =
     (case agentLoop cb 0
             (push \<lparr> role = R_user, content = userMessage, toolCallId = None, toolCalls = None \<rparr> ag) w
      of (iterations, ag1, w1) \<Rightarrow>
        if iterations \<ge> maxIterations
        then (ag1, onError cb ''Max iterations reached'' w1)
        else (ag1, w1))"

subsection \<open>ui/App.tsx: the callbacks of a submitted query and cancellation\<close>

text \<open>
  The component's refs and state variables that \<open>handleSubmit\<close>, its callbacks and
  \<open>cancelOperation\<close> touch are the fields of \<open>app\<close>; a state setter is an update of its
  field. The record is extensible: what else the world holds (the user at the keyboard,
  the file system) lives in its extension, so the tools, the provider and the callbacks
  act on one world \<open>'e app_scheme\<close>.
\<close>

datatype tc_status = Running | Completed | Errored

record ToolCallState =
  stToolCall :: ToolCall
  status :: tc_status
  result :: "string option"

datatype block_type = B_user | B_assistant | B_system

record MessageBlock =
  blockId :: nat
  blockType :: block_type
  blockContent :: string
  blockToolCalls :: "ToolCallState list option"

record app =
  cancelledRef :: bool
  currentTextRef :: string
  currentToolCallsRef :: "ToolCallState list"
  messageIdRef :: nat
  uiMessages :: "MessageBlock list"
  uiInput :: string
  streamingText :: string
  streamingToolCalls :: "ToolCallState list"
  isThinking :: bool
  showInput :: bool
  isProcessing :: bool
  pendingPermission :: "PermissionAction option"
  stdout :: "string list"

definition addMessage ::
  "block_type \<Rightarrow> string \<Rightarrow> ToolCallState list option \<Rightarrow> 'e app_scheme \<Rightarrow> 'e app_scheme" where
  "addMessage t c tcs w =
     w\<lparr>messageIdRef := messageIdRef w + 1,
       uiMessages := uiMessages w @
         [\<lparr> blockId = messageIdRef w + 1, blockType = t, blockContent = c, blockToolCalls = tcs \<rparr>]\<rparr>"

definition finishToolCall :: "ToolCall \<Rightarrow> string \<Rightarrow> ToolCallState list \<Rightarrow> ToolCallState list" where
  \<comment> \<open>the \<open>map\<close> of \<open>onToolCallEnd\<close>\<close>
  "finishToolCall tc res sts =
     (let isError = prefix ''Error'' res \<or> prefix ''Tool execution denied'' res in
      map (\<lambda>st. if tcId (stToolCall st) = tcId tc
                 then st\<lparr>status := (if isError then Errored else Completed), result := Some res\<rparr>
                 else st) sts)"

fun jsonField :: "json \<Rightarrow> string \<Rightarrow> json option" where
  \<comment> \<open>\<open>value[key]\<close> of a value other than \<open>null\<close>, for a key that is no index and no
      built-in property\<close>
  "jsonField (JObject kvs) k = map_of kvs k"
| "jsonField _ k = None"

fun asString :: "json option \<Rightarrow> string option" where
  \<comment> \<open>\<open>x as string | undefined\<close>, for the values the declared type admits\<close>
  "asString (Some (JString s)) = Some s"
| "asString _ = None"

definition permissionActionOf :: "ToolCall \<Rightarrow> PermissionAction" where
  "permissionActionOf tc =
     \<lparr> actionType = (if tcName tc = ''bash'' then T_execute else T_write),
       path = asString (jsonField (arguments tc) ''path''),
       command = asString (jsonField (arguments tc) ''command''),
       url = None,
       toolName = Some (tcName tc),
       toolArgs = Some (arguments tc) \<rparr>"

text \<open>
  \<open>appCallbacks\<close> is the object \<open>callbacks\<close> of \<open>handleSubmit\<close>. Its
  \<open>onPermissionRequest\<close> shows the prompt and waits for \<open>handlePermissionDecision\<close>; the
  user's answer (and whatever else happens while the prompt is open) is the parameter
  \<open>user\<close>. The arguments of a tool call are an object, as \<open>ToolCall\<close> declares.
\<close>

definition appCallbacks ::
  "(PermissionAction \<Rightarrow> 'e app_scheme \<Rightarrow> decision \<times> 'e app_scheme) \<Rightarrow> 'e app_scheme AgentCallbacks" where
  "appCallbacks user =
     \<lparr> onText = (\<lambda>t w.
         if cancelledRef w then w
         else w\<lparr>isThinking := False, currentTextRef := currentTextRef w @ t,
                streamingText := streamingText w @ t\<rparr>),
       onToolCallStart = (\<lambda>tc w.
         if cancelledRef w then w
         else w\<lparr>isThinking := False,
                currentToolCallsRef := currentToolCallsRef w
                  @ [\<lparr> stToolCall = tc, status = Running, result = None \<rparr>],
                streamingToolCalls := streamingToolCalls w
                  @ [\<lparr> stToolCall = tc, status = Running, result = None \<rparr>]\<rparr>),
       onToolCallEnd = (\<lambda>tc res w.
         if cancelledRef w then w
         else w\<lparr>currentToolCallsRef := finishToolCall tc res (currentToolCallsRef w),
                streamingToolCalls := finishToolCall tc res (streamingToolCalls w)\<rparr>),
       onError = (\<lambda>e w.
         if cancelledRef w then w
         else w\<lparr>streamingText := streamingText w @ [CHR 0x0A, CHR 0x0A] @ ''Error: '' @ e,
                isThinking := False, showInput := True, isProcessing := False\<rparr>),
       onDone = (\<lambda>w.
         if cancelledRef w then w
         else
           (if currentTextRef w \<noteq> [] \<or> length (currentToolCallsRef w) > 0
            then addMessage B_assistant (currentTextRef w)
                   (if length (currentToolCallsRef w) > 0 then Some (currentToolCallsRef w) else None) w
            else w)
           \<lparr>streamingText := [], streamingToolCalls := [], isThinking := False,
            showInput := True, isProcessing := False\<rparr>),
       onPermissionRequest = Some (\<lambda>tc w.
         case user (permissionActionOf tc) (w\<lparr>pendingPermission := Some (permissionActionOf tc)\<rparr>)
         of (d, w1) \<Rightarrow> (d, w1\<lparr>pendingPermission := None\<rparr>)) \<rparr>"

definition cancelOperation :: "'e app_scheme \<Rightarrow> 'e app_scheme" where
  "cancelOperation w =
     (if isProcessing w then
        (let w1 = w\<lparr>cancelledRef := True,
                     stdout := stdout w @ [[CHR 0x0A, CHR 0x1B] @ ''[33m(cancelled)'' @ [CHR 0x1B]
                                            @ ''[0m'' @ [CHR 0x0A, CHR 0x0A]]\<rparr>;
             w2 = (if currentTextRef w1 \<noteq> [] \<or> length (currentToolCallsRef w1) > 0
                   then addMessage B_assistant
                          (currentTextRef w1 @ [CHR 0x0A, CHR 0x0A] @ ''(cancelled)'')
                          (if length (currentToolCallsRef w1) > 0
                           then Some (currentToolCallsRef w1) else None) w1
                   else w1)
         in w2\<lparr>isThinking := False, showInput := True, isProcessing := False\<rparr>)
      else w)"

text \<open>
  The statements of \<open>handleSubmit\<close> that precede \<open>await agentRef.current.run(query,
  callbacks)\<close>, for a query that is neither empty, an exit word nor a slash command, while
  \<open>isProcessing\<close> is false. The run itself is \<open>run query (appCallbacks user) ag\<close> from the
  world these statements leave. It is kept apart from them because the component goes on
  handling input while the run is suspended at an \<open>await\<close>: what the user does meanwhile
  (\<open>cancelOperation\<close>, which shows the input again, or the first statements of another
  \<open>handleSubmit\<close>, which clear \<open>cancelledRef\<close>) is a step on the world taken inside the
  run, by the tool or the provider during which it happens.
\<close>

definition beginSubmit :: "string \<Rightarrow> 'e app_scheme \<Rightarrow> 'e app_scheme" where
  "beginSubmit query w =
     addMessage B_user query None
       (w\<lparr>uiInput := [], isProcessing := True, isThinking := True, showInput := False,
          currentTextRef := [], currentToolCallsRef := [], cancelledRef := False,
          streamingText := [], streamingToolCalls := []\<rparr>)"

subsection \<open>providers/anthropic.ts and providers/openai.ts: the structured adapters\<close>

text \<open>
  \<open>JSON.parse\<close> is the platform's: the adapters take it as the parameter \<open>parse\<close>,
  \<open>None\<close> where it throws. What the vendor's SDK delivers is a list of events and, where
  the request or the iteration fails, the message of the exception that ends it.
\<close>

definition textChunk :: "string \<Rightarrow> StreamChunk" where
  "textChunk t = (chunk C_text)\<lparr>chunkContent := Some t\<rparr>"

definition deltaChunk :: "string \<Rightarrow> StreamChunk" where
  "deltaChunk d = (chunk C_tool_call_delta)\<lparr>delta := Some d\<rparr>"

definition toolCallChunk :: "ToolCall \<Rightarrow> StreamChunk" where
  "toolCallChunk tc = (chunk C_tool_call)\<lparr>toolCall := Some tc\<rparr>"

definition errorChunk :: "string \<Rightarrow> StreamChunk" where
  "errorChunk e = (chunk C_error)\<lparr>chunkError := Some e\<rparr>"

definition orEmptyObject :: "string \<Rightarrow> string" where
  \<comment> \<open>\<open>s || '{}'\<close>\<close>
  "orEmptyObject s = (if s = [] then ''{}'' else s)"

definition completedToolCall ::
  "(string \<Rightarrow> json option) \<Rightarrow> string \<Rightarrow> string \<Rightarrow> string \<Rightarrow> StreamChunk" where
  \<comment> \<open>the \<open>try\<close>/\<open>catch\<close> around \<open>JSON.parse\<close> that both adapters share\<close>
  "completedToolCall parse i n input =
     (case parse (orEmptyObject input) of
        Some args \<Rightarrow> toolCallChunk \<lparr> tcId = i, tcName = n, arguments = args \<rparr>
      | None \<Rightarrow> errorChunk (''Failed to parse tool arguments: '' @ input))"

datatype anthropic_event =
    ContentBlockStartToolUse string string
  | ContentBlockStartOther
  | TextDelta string
  | InputJsonDelta string
  | OtherDelta
  | ContentBlockStop
  | MessageStop
  | OtherEvent

text \<open>
  The loop of \<open>AnthropicProvider.chat\<close> over the events; \<open>cur\<close> is \<open>currentToolUse\<close>
  (id, name, input).
\<close>

fun anthropicEvents ::
  "(string \<Rightarrow> json option) \<Rightarrow> anthropic_event list \<Rightarrow> (string \<times> string \<times> string) option
    \<Rightarrow> StreamChunk list" where
  "anthropicEvents parse [] cur = []"
| "anthropicEvents parse (ContentBlockStartToolUse i n # es) cur =
     anthropicEvents parse es (Some (i, n, []))"
| "anthropicEvents parse (ContentBlockStartOther # es) cur = anthropicEvents parse es cur"
| "anthropicEvents parse (TextDelta t # es) cur = textChunk t # anthropicEvents parse es cur"
| "anthropicEvents parse (InputJsonDelta p # es) cur =
     (case cur of
        Some (i, n, input) \<Rightarrow> deltaChunk p # anthropicEvents parse es (Some (i, n, input @ p))
      | None \<Rightarrow> anthropicEvents parse es cur)"
| "anthropicEvents parse (OtherDelta # es) cur = anthropicEvents parse es cur"
| "anthropicEvents parse (ContentBlockStop # es) cur =
     (case cur of
        Some (i, n, input) \<Rightarrow> completedToolCall parse i n input # anthropicEvents parse es None
      | None \<Rightarrow> anthropicEvents parse es cur)"
| "anthropicEvents parse (MessageStop # es) cur = chunk C_done # anthropicEvents parse es cur"
| "anthropicEvents parse (OtherEvent # es) cur = anthropicEvents parse es cur"

definition thrown :: "string option \<Rightarrow> StreamChunk list" where
  \<comment> \<open>the \<open>catch\<close> of \<open>chat\<close>: an exception becomes a last \<open>error\<close> chunk\<close>
  "thrown failure = (case failure of Some e \<Rightarrow> [errorChunk e] | None \<Rightarrow> [])"

definition anthropicChat ::
  "(string \<Rightarrow> json option) \<Rightarrow> anthropic_event list \<Rightarrow> string option \<Rightarrow> StreamChunk list" where
  "anthropicChat parse events failure = anthropicEvents parse events None @ thrown failure"

record ToolCallDelta =
  index :: nat
  deltaId :: "string option"
  functionName :: "string option"
  functionArguments :: "string option"

record OpenAIDelta =
  deltaContent :: "string option"
  deltaToolCalls :: "ToolCallDelta list option"

record OpenAIChunk =
  choiceDelta :: "OpenAIDelta option"
  finishReason :: "string option"

definition given :: "string option \<Rightarrow> bool" where
  \<comment> \<open>truthiness of an optional string\<close>
  "given s = (case s of Some t \<Rightarrow> t \<noteq> [] | None \<Rightarrow> False)"

definition orEmpty :: "string option \<Rightarrow> string" where
  \<comment> \<open>\<open>s || ''\<close>\<close>
  "orEmpty s = (case s of Some t \<Rightarrow> t | None \<Rightarrow> [])"

text \<open>
  \<open>toolCalls\<close> of \<open>OpenAIProvider.chat\<close> is a \<open>Map\<close> from index to (id, name, arguments);
  it is an association list in insertion order, which is the order of \<open>values()\<close>.
\<close>

type_synonym openai_calls = "(nat \<times> string \<times> string \<times> string) list"

definition applyToolCallDelta :: "ToolCallDelta \<Rightarrow> openai_calls \<Rightarrow> openai_calls \<times> StreamChunk list" where
  \<comment> \<open>the body of the loop over \<open>delta.tool_calls\<close>\<close>
  "applyToolCallDelta d calls =
     (let calls1 =
            (if index d \<in> fst ` set calls then calls
             else calls @ [(index d, orEmpty (deltaId d), orEmpty (functionName d), [])])
      in
      (map (\<lambda>(k, i, n, a).
              if k = index d then
                (k,
                 (if given (deltaId d) then orEmpty (deltaId d) else i),
                 (if given (functionName d) then orEmpty (functionName d) else n),
                 (if given (functionArguments d) then a @ orEmpty (functionArguments d) else a))
              else (k, i, n, a)) calls1,
       (if given (functionArguments d) then [deltaChunk (orEmpty (functionArguments d))] else [])))"

fun applyToolCallDeltas :: "ToolCallDelta list \<Rightarrow> openai_calls \<Rightarrow> openai_calls \<times> StreamChunk list" where
  "applyToolCallDeltas [] calls = (calls, [])"
| "applyToolCallDeltas (d # ds) calls =
     (case applyToolCallDelta d calls of (calls1, out1) \<Rightarrow>
        (case applyToolCallDeltas ds calls1 of (calls2, out2) \<Rightarrow> (calls2, out1 @ out2)))"

fun openaiChunks ::
  "(string \<Rightarrow> json option) \<Rightarrow> OpenAIChunk list \<Rightarrow> openai_calls \<Rightarrow> StreamChunk list" where
  "openaiChunks parse [] calls = []"
| "openaiChunks parse (c # cs) calls =
     (case choiceDelta c of
        None \<Rightarrow> openaiChunks parse cs calls
      | Some d \<Rightarrow>
          (if given (deltaContent d) then [textChunk (orEmpty (deltaContent d))] else [])
          @ (case applyToolCallDeltas (case deltaToolCalls d of Some ds \<Rightarrow> ds | None \<Rightarrow> []) calls
             of (calls1, out) \<Rightarrow>
               out
               @ (if given (finishReason c)
                  then map (\<lambda>(k, i, n, a). completedToolCall parse i n a) calls1 @ [chunk C_done]
                  else [])
               @ openaiChunks parse cs calls1))"

definition openaiChat ::
  "(string \<Rightarrow> json option) \<Rightarrow> OpenAIChunk list \<Rightarrow> string option \<Rightarrow> StreamChunk list" where
  "openaiChat parse chunks failure = openaiChunks parse chunks [] @ thrown failure"

subsection \<open>providers/ollama.ts: extraction of tool calls from free text\<close>



























subsection \<open>Provider, tools and callbacks used at concrete inputs\<close>

text \<open>
  A world that is a log of what happened: each callback, each execution of a tool and each
  request to the provider (with the length of the history it was sent) appends its event.
\<close>

datatype event =
    OnText string | OnToolCallStart ToolCall | OnToolCallEnd ToolCall string
  | OnError string | OnDone | OnPermissionRequest ToolCall
  | Executed string json | Requested nat | CancelRaised

definition recordingCallbacks :: "(ToolCall \<Rightarrow> decision) option \<Rightarrow> event list AgentCallbacks" where
  "recordingCallbacks ask =
     \<lparr> onText = (\<lambda>t w. w @ [OnText t]),
       onToolCallStart = (\<lambda>tc w. w @ [OnToolCallStart tc]),
       onToolCallEnd = (\<lambda>tc r w. w @ [OnToolCallEnd tc r]),
       onError = (\<lambda>e w. w @ [OnError e]),
       onDone = (\<lambda>w. w @ [OnDone]),
       onPermissionRequest = map_option (\<lambda>f tc w. (f tc, w @ [OnPermissionRequest tc])) ask \<rparr>"

definition stubTool :: "string \<Rightarrow> string \<Rightarrow> event list Tool" where
  "stubTool n out =
     \<lparr> name = n,
       execute = (\<lambda>args w. (Returned \<lparr> success = True, toolOutput = out, toolError = None \<rparr>,
                             w @ [Executed n args])) \<rparr>"

definition throwingTool :: "string \<Rightarrow> string \<Rightarrow> event list Tool" where
  "throwingTool n msg = \<lparr> name = n, execute = (\<lambda>args w. (Threw msg, w @ [Executed n args])) \<rparr>"

definition refuse :: "ToolCall \<Rightarrow> decision" where
  "refuse tc = \<lparr> allow = False, remember = False \<rparr>"

definition call :: "string \<Rightarrow> string \<Rightarrow> ToolCall" where
  "call i n = \<lparr> tcId = i, tcName = n, arguments = JObject [] \<rparr>"

definition bashCall :: ToolCall where
  "bashCall = \<lparr> tcId = ''call_1'', tcName = ''bash'',
                 arguments = JObject [(''command'', JString ''rm -rf /tmp/x'')] \<rparr>"

definition fetchCall :: ToolCall where
  "fetchCall = \<lparr> tcId = ''call_2'', tcName = ''web_fetch'',
                  arguments = JObject [(''url'', JString ''http://example.com/'')] \<rparr>"

definition scriptedProvider ::
  "nat \<Rightarrow> ToolCall list \<Rightarrow> Message list \<Rightarrow> event list \<Rightarrow> StreamChunk list \<times> event list" where
  \<comment> \<open>proposes the calls while the history is shorter than \<open>n\<close>, then answers \<open>ok\<close>\<close>
  "scriptedProvider n tcs msgs w =
     (if length msgs < n then map toolCallChunk tcs @ [chunk C_done]
      else [textChunk ''ok'', chunk C_done],
      w @ [Requested (length msgs)])"

definition suggestAgent :: "event list Agent" where
  "suggestAgent =
     \<lparr> provider = scriptedProvider 2 [bashCall],
       tools = [stubTool ''read_file'' ''contents'', stubTool ''bash'' ''done'',
                stubTool ''web_fetch'' ''page'', throwingTool ''edit_file'' ''disk full''],
       configApprovalMode = SUGGEST, messages = [] \<rparr>"

definition asked :: "event list Agent" where
  \<comment> \<open>\<open>suggestAgent\<close> when \<open>run\<close> has pushed the user's message\<close>
  "asked = push \<lparr> role = R_user, content = ''go'', toolCallId = None, toolCalls = None \<rparr> suggestAgent"

definition lateAgent :: "event list Agent" where
  \<comment> \<open>its model proposes a call to no registered tool on requests 1 to 19 (the history
      grows by two messages a turn) and answers on request 20\<close>
  "lateAgent =
     \<lparr> provider = scriptedProvider 39 [call ''c'' ''nop''], tools = [],
       configApprovalMode = FULL_AUTO, messages = [] \<rparr>"

definition reports :: "event list \<Rightarrow> event list" where
  \<comment> \<open>the \<open>onDone\<close> and \<open>onError\<close> callbacks of a log\<close>
  "reports w = filter (\<lambda>e. case e of OnDone \<Rightarrow> True | OnError _ \<Rightarrow> True | _ \<Rightarrow> False) w"

text \<open>
  A world with the application's state and a log. \<open>slowTool\<close> is a tool during whose
  execution the user presses Escape: \<open>cancelOperation\<close> runs before the tool returns.
\<close>

record session = app +
  log :: "event list"

definition loggingTool :: "string \<Rightarrow> string \<Rightarrow> session Tool" where
  "loggingTool n out =
     \<lparr> name = n,
       execute = (\<lambda>args w. (Returned \<lparr> success = True, toolOutput = out, toolError = None \<rparr>,
                             w\<lparr>log := log w @ [Executed n args]\<rparr>)) \<rparr>"

definition slowTool :: "string \<Rightarrow> string \<Rightarrow> session Tool" where
  "slowTool n out =
     \<lparr> name = n,
       execute = (\<lambda>args w.
         let w1 = cancelOperation (w\<lparr>log := log w @ [Executed n args]\<rparr>) in
         (Returned \<lparr> success = True, toolOutput = out, toolError = None \<rparr>,
          w1\<lparr>log := log w1 @ [CancelRaised]\<rparr>)) \<rparr>"

definition sessionProvider ::
  "nat \<Rightarrow> ToolCall list \<Rightarrow> Message list \<Rightarrow> session \<Rightarrow> StreamChunk list \<times> session" where
  "sessionProvider n tcs msgs w =
     (if length msgs < n then map toolCallChunk tcs @ [chunk C_done]
      else [textChunk ''ok'', chunk C_done],
      w\<lparr>log := log w @ [Requested (length msgs)]\<rparr>)"

definition nobody :: "PermissionAction \<Rightarrow> session \<Rightarrow> decision \<times> session" where
  \<comment> \<open>a user who refuses every prompt\<close>
  "nobody a w = (\<lparr> allow = False, remember = False \<rparr>, w)"

definition sessionAgent :: "session Agent" where
  "sessionAgent =
     \<lparr> provider = sessionProvider 2 [call ''c1'' ''slow'', call ''c2'' ''fast''],
       tools = [slowTool ''slow'' ''one'', loggingTool ''fast'' ''two''],
       configApprovalMode = SUGGEST, messages = [] \<rparr>"

definition idle :: session where
  \<comment> \<open>the application before the first query\<close>
  "idle =
     \<lparr> cancelledRef = False, currentTextRef = [], currentToolCallsRef = [], messageIdRef = 0,
       uiMessages = [], uiInput = [], streamingText = [], streamingToolCalls = [],
       isThinking = False, showInput = True, isProcessing = False, pendingPermission = None,
       stdout = [], log = [] \<rparr>"

text \<open>
  For concrete inputs: \<open>sampleParse\<close> is \<open>JSON.parse\<close> on the texts it lists and on texts
  that are no JSON (\<open>None\<close> is its SyntaxError); \<open>twoBlocks\<close> is a reply of a model with
  two fenced blocks, one for the tool \<open>read_file\<close> and one for \<open>delete_universe\<close>.
\<close>

definition readPayload :: string where
  \<open>readPayload = ''{"tool": "read_file", "arguments": {"file_path": "src/index.ts"}}''\<close>

definition deletePayload :: string where
  \<open>deletePayload = ''{"tool": "delete_universe", "arguments": {}}''\<close>

definition sampleParse :: "string \<Rightarrow> json option" where
  \<open>sampleParse s =
     (if s = ''{}'' then Some (JObject [])
      else if s = readPayload
      then Some (JObject [(''tool'', JString ''read_file''),
                          (''arguments'', JObject [(''file_path'', JString ''src/index.ts'')])])
      else if s = deletePayload
      then Some (JObject [(''tool'', JString ''delete_universe''), (''arguments'', JObject [])])
      else None)\<close>






text \<open>
  What the two vendors deliver for a tool call whose arguments arrive as the text
  \<open>{oops\<close>, which is no JSON.
\<close>

definition anthropicMalformed :: "anthropic_event list" where
  "anthropicMalformed =
     [ContentBlockStartToolUse ''toolu_1'' ''read_file'', InputJsonDelta ''{oops'',
      ContentBlockStop, MessageStop]"

definition openaiMalformed :: "OpenAIChunk list" where
  "openaiMalformed =
     [\<lparr> choiceDelta = Some \<lparr> deltaContent = None,
          deltaToolCalls = Some [\<lparr> index = 0, deltaId = Some ''call_1'',
            functionName = Some ''read_file'', functionArguments = Some ''{oops'' \<rparr>] \<rparr>,
        finishReason = None \<rparr>,
      \<lparr> choiceDelta = Some \<lparr> deltaContent = None, deltaToolCalls = None \<rparr>,
        finishReason = Some ''tool_calls'' \<rparr>]"

text \<open>
  The events of a reply with two tool uses, the first with the arguments \<open>{}\<close> and the
  second with the text \<open>{oops\<close>, and an agent whose provider is the Anthropic adapter on
  these events.
\<close>

definition halfParsed :: "anthropic_event list" where
  "halfParsed =
     [ContentBlockStartToolUse ''toolu_1'' ''read_file'', InputJsonDelta ''{}'', ContentBlockStop,
      ContentBlockStartToolUse ''toolu_2'' ''read_file'', InputJsonDelta ''{oops'', ContentBlockStop,
      MessageStop]"

definition halfParsedAgent :: "event list Agent" where
  "halfParsedAgent =
     suggestAgent\<lparr>provider :=
       (\<lambda>msgs w. (anthropicChat sampleParse halfParsed None, w @ [Requested (length msgs)]))\<rparr>"

text \<open>
  The single-condition reading of the write check, written from the specification's words
  (write allowed without prompt iff path already allowed and mode is auto-edit), to be
  compared with \<open>checkFileWrite\<close> above.
\<close>

definition checkFileWrite_spec ::
  "'w DefaultPermissionManager \<Rightarrow> string \<Rightarrow> 'w \<Rightarrow> 'w perm_outcome" where
  "checkFileWrite_spec m filePath w =
     (if isPathAllowed m filePath \<and> approvalMode m = AUTO_EDIT then (Inr grantedResult, m, w)
      else
        (case promptFn m ((action T_file_write)\<lparr>path := Some filePath\<rparr>) w of (d, w') \<Rightarrow>
           (Inr (userDenied (allow d)),
            (if allow d \<and> remember d
             then m\<lparr>allowedPaths := set_add filePath (allowedPaths m)\<rparr> else m),
            w')))"

definition wd_work :: "PermissionAction list DefaultPermissionManager" where
  "wd_work = newPermissionManager SUGGEST ''/work'' denyPrompt"

definition wd_home :: "PermissionAction list DefaultPermissionManager" where
  "wd_home = newPermissionManager SUGGEST ''/home/user'' denyPrompt"

definition readAction :: "string \<Rightarrow> PermissionAction" where
  "readAction p = (action T_file_read)\<lparr>path := Some p\<rparr>"

definition writeAction :: "string \<Rightarrow> PermissionAction" where
  "writeAction p = (action T_file_write)\<lparr>path := Some p\<rparr>"

definition auto_work :: "PermissionAction list DefaultPermissionManager" where
  "auto_work = newPermissionManager AUTO_EDIT ''/work'' denyPrompt"

section \<open>Properties\<close>

subsection \<open>Permission gate\<close>

text \<open>
  Claim C1 (path matching respects directory boundaries). The allow-list loop of
  \<open>isPathAllowed\<close> appends the separator before it compares, the working-directory test
  above it does not: a gate built for the working directory \<open>/work\<close> in suggest mode
  matches \<open>/workshop/file.txt\<close>, and a read request for it is granted with the prompt
  never asked (the log of requests stays empty). An entry \<open>/work\<close> added to the allow-list
  of a gate for another working directory matches \<open>/work/file.txt\<close> and not
  \<open>/workshop/file.txt\<close>.
\<close>

theorem workingDirectory_prefix_crosses_boundary:
  "isPathAllowed wd_work ''/workshop/file.txt'' \<and>
   checkPermission noHostname wd_work (readAction ''/workshop/file.txt'') []
     = (Inr grantedResult, wd_work, []) \<and>
   isPathAllowed (addToAllowList noHostname wd_home (readAction ''/work'')) ''/work/file.txt'' \<and>
   \<not> isPathAllowed (addToAllowList noHostname wd_home (readAction ''/work'')) ''/workshop/file.txt''"
  by (simp add: wd_work_def wd_home_def readAction_def checkPermission_def checkFileRead_def
      action_def isPathAllowed_def newPermissionManager_def addToAllowList_def set_add_def)

lemma checkFileWrite_eq_spec: "checkFileWrite m p w = checkFileWrite_spec m p w"
  by (simp add: checkFileWrite_def checkFileWrite_spec_def)

lemma checkFileWrite_spec_log:
  assumes "\<And>a w0. snd (promptFn m a w0) = w0 @ [a]"
  shows "snd (snd (checkFileWrite_spec m p w)) =
     (if isPathAllowed m p \<and> approvalMode m = AUTO_EDIT then w else w @ [(action T_file_write)\<lparr>path := Some p\<rparr>])"
  using assms[of "(action T_file_write)\<lparr>path := Some p\<rparr>" w]
  by (auto simp: checkFileWrite_spec_def split: prod.splits)


text \<open>
  Claim C9 (the write check equals its single-condition specification). For a
  \<open>file_write\<close> or \<open>file_edit\<close> action with a path, \<open>checkFileWrite\<close> is the
  single-condition function \<open>checkFileWrite_spec\<close>, and \<open>checkPermission\<close> is a grant in
  full-auto mode and \<open>checkFileWrite_spec\<close> otherwise. With a prompt that logs every request
  into the world, the call grants with the log untouched exactly when the mode is full-auto,
  or auto-edit with the path already allowed; in every other case the log grows by the
  \<open>file_write\<close> request, so the prompt was consulted.
\<close>

theorem checkFileWrite_single_condition:
  assumes ty: "actionType a = T_file_write \<or> actionType a = T_file_edit"
    and pa: "path a = Some p"
    and lg: "\<And>b w0. snd (promptFn m b w0) = w0 @ [b]"
  shows "checkFileWrite m p w = checkFileWrite_spec m p w \<and>
         checkPermission hostname m a w =
           (if approvalMode m = FULL_AUTO then (Inr grantedResult, m, w)
            else checkFileWrite_spec m p w) \<and>
         ((fst (checkPermission hostname m a w) = Inr grantedResult \<and>
           snd (snd (checkPermission hostname m a w)) = w)
            = (approvalMode m = FULL_AUTO \<or> (approvalMode m = AUTO_EDIT \<and> isPathAllowed m p))) \<and>
         (snd (snd (checkPermission hostname m a w)) =
            (if approvalMode m = FULL_AUTO \<or> (approvalMode m = AUTO_EDIT \<and> isPathAllowed m p)
             then w else w @ [(action T_file_write)\<lparr>path := Some p\<rparr>]))"
proof -
  have cp: "checkPermission hostname m a w =
           (if approvalMode m = FULL_AUTO then (Inr grantedResult, m, w)
            else checkFileWrite_spec m p w)"
    using ty pa by (auto simp: checkPermission_def checkFileWrite_eq_spec)
  have s: "snd (snd (checkFileWrite_spec m p w)) =
     (if isPathAllowed m p \<and> approvalMode m = AUTO_EDIT then w else w @ [(action T_file_write)\<lparr>path := Some p\<rparr>])"
    using lg by (rule checkFileWrite_spec_log)
  have g: "isPathAllowed m p \<and> approvalMode m = AUTO_EDIT \<Longrightarrow> fst (checkFileWrite_spec m p w) = Inr grantedResult"
    by (simp add: checkFileWrite_spec_def)
  have p3: "(fst (checkPermission hostname m a w) = Inr grantedResult \<and>
           snd (snd (checkPermission hostname m a w)) = w)
            = (approvalMode m = FULL_AUTO \<or> (approvalMode m = AUTO_EDIT \<and> isPathAllowed m p))"
    using s g by (auto simp: cp)
  have p4: "snd (snd (checkPermission hostname m a w)) =
            (if approvalMode m = FULL_AUTO \<or> (approvalMode m = AUTO_EDIT \<and> isPathAllowed m p)
             then w else w @ [(action T_file_write)\<lparr>path := Some p\<rparr>])"
    using s by (auto simp: cp)
  show ?thesis
    by (intro conjI) (rule checkFileWrite_eq_spec cp p3 p4)+
qed

theorem checkFileWrite_single_condition_witness:
  "checkPermission noHostname auto_work (writeAction ''/work/a.txt'') [] = (Inr grantedResult, auto_work, []) \<and>
   checkPermission noHostname auto_work (writeAction ''/etc/passwd'') []
     = (Inr (userDenied False), auto_work, [writeAction ''/etc/passwd'']) \<and>
   checkPermission noHostname wd_work (writeAction ''/work/a.txt'') []
     = (Inr (userDenied False), wd_work, [writeAction ''/work/a.txt''])"
proof -
  have l1: "\<And>b w0. snd (promptFn auto_work b w0) = w0 @ [b]"
    by (simp add: auto_work_def newPermissionManager_def denyPrompt_def)
  have l2: "\<And>b w0. snd (promptFn wd_work b w0) = w0 @ [b]"
    by (simp add: wd_work_def newPermissionManager_def denyPrompt_def)
  have t: "actionType (writeAction p) = T_file_write \<or> actionType (writeAction p) = T_file_edit" for p
    by (simp add: writeAction_def action_def)
  have pa: "path (writeAction p) = Some p" for p
    by (simp add: writeAction_def action_def)
  note A = checkFileWrite_single_condition[where p="''/work/a.txt''" and m=auto_work and hostname=noHostname and w="[]", OF t pa l1]
  note B = checkFileWrite_single_condition[where p="''/etc/passwd''" and m=auto_work and hostname=noHostname and w="[]", OF t pa l1]
  note C = checkFileWrite_single_condition[where p="''/work/a.txt''" and m=wd_work and hostname=noHostname and w="[]", OF t pa l2]
  have a1: "approvalMode auto_work = AUTO_EDIT" "approvalMode wd_work = SUGGEST"
    by (simp_all add: auto_work_def wd_work_def newPermissionManager_def)
  have a2: "isPathAllowed auto_work ''/work/a.txt''" "\<not> isPathAllowed auto_work ''/etc/passwd''"
    by (simp_all add: auto_work_def isPathAllowed_def newPermissionManager_def set_add_def)
  have p1: "promptFn auto_work = denyPrompt" "promptFn wd_work = denyPrompt"
    by (simp_all add: auto_work_def wd_work_def newPermissionManager_def)
  show ?thesis
    using A B C
    by (simp add: a1 a2 p1 checkFileWrite_spec_def denyPrompt_def writeAction_def)
qed

lemma checkFileRead_frame:
  assumes "\<And>b. \<not> (allow (fst (promptFn m b w)) \<and> remember (fst (promptFn m b w)))"
  shows "fst (snd (checkFileRead m p w)) = m"
  using assms[of "(action T_file_read)\<lparr>path := Some p\<rparr>"]
  by (auto simp: checkFileRead_def split: prod.splits)

lemma checkFileWrite_frame:
  assumes "\<And>b. \<not> (allow (fst (promptFn m b w)) \<and> remember (fst (promptFn m b w)))"
  shows "fst (snd (checkFileWrite m p w)) = m"
  using assms[of "(action T_file_write)\<lparr>path := Some p\<rparr>"]
  by (auto simp: checkFileWrite_def split: prod.splits)

lemma checkBashExecute_frame:
  assumes "\<And>b. \<not> (allow (fst (promptFn m b w)) \<and> remember (fst (promptFn m b w)))"
  shows "fst (snd (checkBashExecute m c w)) = m"
  using assms[of "(action T_bash_execute)\<lparr>command := Some c\<rparr>"]
  by (auto simp: checkBashExecute_def Let_def split: prod.splits)

lemma checkWebFetch_frame:
  assumes "\<And>b. \<not> (allow (fst (promptFn m b w)) \<and> remember (fst (promptFn m b w)))"
  shows "fst (snd (checkWebFetch hostname m u w)) = m"
proof (cases "case u of None \<Rightarrow> None | Some s \<Rightarrow> map_option (Pair s) (hostname s)")
  case None
  then show ?thesis by (simp add: checkWebFetch_def)
next
  case (Some sh)
  obtain s h where sh: "sh = (s, h)" by (cases sh)
  show ?thesis
    using assms[of "(action T_web_fetch)\<lparr>url := Some s\<rparr>"] Some sh
    by (auto simp: checkWebFetch_def split: prod.splits)
qed

lemma checkPermission_frame:
  assumes "\<And>b. \<not> (allow (fst (promptFn m b w)) \<and> remember (fst (promptFn m b w)))"
  shows "fst (snd (checkPermission hostname m a w)) = m"
  using checkFileRead_frame[OF assms] checkFileWrite_frame[OF assms]
    checkBashExecute_frame[OF assms] checkWebFetch_frame[OF assms]
  by (simp add: checkPermission_def split: action_type.splits option.splits)

text \<open>The answer depends on the world only through the prompt's decision.\<close>

lemma checkPermission_result:
  assumes "\<And>b. fst (promptFn m b w) = fst (promptFn m b v)"
  shows "fst (checkPermission hostname m a w) = fst (checkPermission hostname m a v)"
proof -
  have r: "fst (checkFileRead m p w) = fst (checkFileRead m p v)" for p
    using assms[of "(action T_file_read)\<lparr>path := Some p\<rparr>"]
    by (auto simp: checkFileRead_def split: prod.splits)
  have wr: "fst (checkFileWrite m p w) = fst (checkFileWrite m p v)" for p
    using assms[of "(action T_file_write)\<lparr>path := Some p\<rparr>"]
    by (auto simp: checkFileWrite_def split: prod.splits)
  have b: "fst (checkBashExecute m c w) = fst (checkBashExecute m c v)" for c
    using assms[of "(action T_bash_execute)\<lparr>command := Some c\<rparr>"]
    by (auto simp: checkBashExecute_def Let_def split: prod.splits)
  have f: "fst (checkWebFetch hostname m u w) = fst (checkWebFetch hostname m u v)" for u
  proof (cases "case u of None \<Rightarrow> None | Some s \<Rightarrow> map_option (Pair s) (hostname s)")
    case None
    then show ?thesis by (simp add: checkWebFetch_def)
  next
    case (Some sh)
    obtain s h where sh: "sh = (s, h)" by (cases sh)
    show ?thesis
      using assms[of "(action T_web_fetch)\<lparr>url := Some s\<rparr>"] Some sh
      by (auto simp: checkWebFetch_def split: prod.splits)
  qed
  show ?thesis
    using r wr b f
    by (simp add: checkPermission_def split: action_type.splits option.splits)
qed

text \<open>The prompt is consulted exactly when \<open>promptReached\<close> holds.\<close>

lemma checkFileRead_asks:
  "\<not> isPathAllowed m p \<Longrightarrow>
   \<exists>b. fst (checkFileRead m p w) = Inr (userDenied (allow (fst (promptFn m b w)))) \<and>
       snd (snd (checkFileRead m p w)) = snd (promptFn m b w)"
  by (rule exI[of _ "(action T_file_read)\<lparr>path := Some p\<rparr>"])
     (simp add: checkFileRead_def split: prod.splits)

lemma checkFileWrite_asks:
  "\<not> (approvalMode m = AUTO_EDIT \<and> isPathAllowed m p) \<Longrightarrow>
   \<exists>b. fst (checkFileWrite m p w) = Inr (userDenied (allow (fst (promptFn m b w)))) \<and>
       snd (snd (checkFileWrite m p w)) = snd (promptFn m b w)"
  by (rule exI[of _ "(action T_file_write)\<lparr>path := Some p\<rparr>"])
     (auto simp: checkFileWrite_def split: prod.splits)

lemma checkBashExecute_asks:
  "firstToken c \<notin> set (allowedCommands m) \<Longrightarrow> firstToken c \<notin> set safeCommands \<Longrightarrow>
   trim (firstLine c) \<notin> set safeCommands \<Longrightarrow>
   \<exists>b. fst (checkBashExecute m c w) = Inr (userDenied (allow (fst (promptFn m b w)))) \<and>
       snd (snd (checkBashExecute m c w)) = snd (promptFn m b w)"
  by (rule exI[of _ "(action T_bash_execute)\<lparr>command := Some c\<rparr>"])
     (simp add: checkBashExecute_def Let_def split: prod.splits)

lemma checkWebFetch_asks:
  "hostname u = Some host \<Longrightarrow> host \<notin> set (allowedUrls m) \<Longrightarrow>
   \<exists>b. fst (checkWebFetch hostname m (Some u) w) = Inr (userDenied (allow (fst (promptFn m b w)))) \<and>
       snd (snd (checkWebFetch hostname m (Some u) w)) = snd (promptFn m b w)"
  by (rule exI[of _ "(action T_web_fetch)\<lparr>url := Some u\<rparr>"])
     (simp add: checkWebFetch_def split: prod.splits)

lemma checkPermission_asks:
  assumes "promptReached hostname m a"
  shows "\<exists>b. fst (checkPermission hostname m a w) = Inr (userDenied (allow (fst (promptFn m b w)))) \<and>
       snd (snd (checkPermission hostname m a w)) = snd (promptFn m b w)"
proof (cases "actionType a")
  case T_file_read
  with assms obtain p where "path a = Some p" "\<not> isPathAllowed m p" "approvalMode m \<noteq> FULL_AUTO"
    by (auto simp: promptReached_def split: option.splits)
  with T_file_read checkFileRead_asks[of m p w] show ?thesis
    by (simp add: checkPermission_def)
next
  case T_file_write
  with assms obtain p where "path a = Some p" "\<not> (approvalMode m = AUTO_EDIT \<and> isPathAllowed m p)"
      "approvalMode m \<noteq> FULL_AUTO"
    by (auto simp: promptReached_def split: option.splits)
  with T_file_write checkFileWrite_asks[of m p w] show ?thesis
    by (simp add: checkPermission_def)
next
  case T_file_edit
  with assms obtain p where "path a = Some p" "\<not> (approvalMode m = AUTO_EDIT \<and> isPathAllowed m p)"
      "approvalMode m \<noteq> FULL_AUTO"
    by (auto simp: promptReached_def split: option.splits)
  with T_file_edit checkFileWrite_asks[of m p w] show ?thesis
    by (simp add: checkPermission_def)
next
  case T_bash_execute
  with assms obtain c where "command a = Some c" "firstToken c \<notin> set (allowedCommands m)"
      "firstToken c \<notin> set safeCommands" "trim (firstLine c) \<notin> set safeCommands"
      "approvalMode m \<noteq> FULL_AUTO"
    by (auto simp: promptReached_def split: option.splits)
  with T_bash_execute checkBashExecute_asks[of c m w] show ?thesis
    by (simp add: checkPermission_def)
next
  case T_web_fetch
  with assms obtain u host where "url a = Some u" "hostname u = Some host"
      "host \<notin> set (allowedUrls m)" "approvalMode m \<noteq> FULL_AUTO"
    by (auto simp: promptReached_def split: option.splits)
  with T_web_fetch checkWebFetch_asks[of hostname u host m w] show ?thesis
    by (simp add: checkPermission_def)
qed (use assms in \<open>simp_all add: promptReached_def\<close>)

lemma checkPermission_unasked:
  assumes "\<not> promptReached hostname m a"
  shows "snd (checkPermission hostname m a w) = (m, w)"
proof (cases "approvalMode m = FULL_AUTO")
  case True
  then show ?thesis by (simp add: checkPermission_def)
next
  case False
  show ?thesis
  proof (cases "actionType a")
    case T_file_read
    with assms False show ?thesis
      by (auto simp: promptReached_def checkPermission_def checkFileRead_def split: option.splits)
  next
    case T_file_write
    with assms False show ?thesis
      by (auto simp: promptReached_def checkPermission_def checkFileWrite_def split: option.splits)
  next
    case T_file_edit
    with assms False show ?thesis
      by (auto simp: promptReached_def checkPermission_def checkFileWrite_def split: option.splits)
  next
    case T_bash_execute
    with assms False show ?thesis
      by (auto simp: promptReached_def checkPermission_def checkBashExecute_def Let_def
          split: option.splits)
  next
    case T_web_fetch
    with assms False show ?thesis
      by (auto simp: promptReached_def checkPermission_def checkWebFetch_def split: option.splits)
  qed (simp_all add: checkPermission_def)
qed


text \<open>
  Claim C10 (a denial is never memoized). If no answer the prompt can give in the current
  world has both \<open>allow\<close> and \<open>remember\<close> set, \<open>checkPermission\<close> returns the gate
  unchanged (allowed paths, commands and hosts alike), whatever the action. With a prompt
  that always answers \<open>{allow: false, remember: false}\<close>, two successive calls for the same
  action leave the gate unchanged and return the same result, and for every action that
  reaches the prompt both results are the denial \<open>{granted: false, reason: 'User denied
  permission'}\<close>. Reaching the prompt is \<open>promptReached\<close>: under it the result is the
  prompt's \<open>allow\<close> (with the denial's reason when it is false) and the world is the one
  the prompt leaves; without it the call returns the gate and the world as they were, so
  the prompt was not consulted.
\<close>

theorem denial_never_memoizes:
  fixes m :: "'w DefaultPermissionManager"
  shows
  "((\<forall>b. \<not> (allow (fst (promptFn m b w)) \<and> remember (fst (promptFn m b w))))
      \<longrightarrow> fst (snd (checkPermission hostname m a w)) = m) \<and>
   ((\<forall>b w0. fst (promptFn m b w0) = \<lparr> allow = False, remember = False \<rparr>)
      \<longrightarrow> (case checkPermission hostname m a w of (r1, m1, w1) \<Rightarrow>
             case checkPermission hostname m1 a w1 of (r2, m2, w2) \<Rightarrow>
               m1 = m \<and> m2 = m \<and> r2 = r1 \<and>
               (promptReached hostname m a \<longrightarrow>
                  r1 = Inr \<lparr> granted = False, reason = Some ''User denied permission'' \<rparr> \<and>
                  r2 = Inr \<lparr> granted = False, reason = Some ''User denied permission'' \<rparr>))) \<and>
   (promptReached hostname m a \<longrightarrow>
      (\<exists>b. fst (checkPermission hostname m a w)
             = Inr \<lparr> granted = allow (fst (promptFn m b w)),
                     reason = (if allow (fst (promptFn m b w)) then None
                               else Some ''User denied permission'') \<rparr> \<and>
           snd (snd (checkPermission hostname m a w)) = snd (promptFn m b w))) \<and>
   (\<not> promptReached hostname m a \<longrightarrow> snd (checkPermission hostname m a w) = (m, w))"
proof (intro conjI impI)
  assume "\<forall>b. \<not> (allow (fst (promptFn m b w)) \<and> remember (fst (promptFn m b w)))"
  then show "fst (snd (checkPermission hostname m a w)) = m"
    by (intro checkPermission_frame) simp
next
  assume D: "\<forall>b w0. fst (promptFn m b w0) = \<lparr> allow = False, remember = False \<rparr>"
  obtain r1 m1 w1 where c1: "checkPermission hostname m a w = (r1, m1, w1)"
    by (cases "checkPermission hostname m a w")
  obtain r2 m2 w2 where c2: "checkPermission hostname m1 a w1 = (r2, m2, w2)"
    by (cases "checkPermission hostname m1 a w1")
  have m1: "m1 = m"
    using checkPermission_frame[of m w hostname a] D c1 by simp
  have m2: "m2 = m"
    using checkPermission_frame[of m w1 hostname a] D c2 m1 by simp
  have "fst (checkPermission hostname m a w) = fst (checkPermission hostname m a w1)"
    using D by (intro checkPermission_result) simp
  then have r: "r2 = r1" using c1 c2 m1 by simp
  have d: "r1 = Inr \<lparr> granted = False, reason = Some ''User denied permission'' \<rparr>"
    if "promptReached hostname m a"
    using checkPermission_asks[OF that, of w] D c1 by (auto simp: userDenied_def)
  show "case checkPermission hostname m a w of (r1, m1, w1) \<Rightarrow>
             case checkPermission hostname m1 a w1 of (r2, m2, w2) \<Rightarrow>
               m1 = m \<and> m2 = m \<and> r2 = r1 \<and>
               (promptReached hostname m a \<longrightarrow>
                  r1 = Inr \<lparr> granted = False, reason = Some ''User denied permission'' \<rparr> \<and>
                  r2 = Inr \<lparr> granted = False, reason = Some ''User denied permission'' \<rparr>)"
    using c1 c2 m1 m2 r d by simp
next
  assume "promptReached hostname m a"
  from checkPermission_asks[OF this, of w]
  show "\<exists>b. fst (checkPermission hostname m a w)
             = Inr \<lparr> granted = allow (fst (promptFn m b w)),
                     reason = (if allow (fst (promptFn m b w)) then None
                               else Some ''User denied permission'') \<rparr> \<and>
           snd (snd (checkPermission hostname m a w)) = snd (promptFn m b w)"
    by (simp add: userDenied_def)
next
  assume "\<not> promptReached hostname m a"
  then show "snd (checkPermission hostname m a w) = (m, w)"
    by (rule checkPermission_unasked)
qed

theorem denial_never_memoizes_witness:
  "promptReached noHostname wd_work (writeAction ''/etc/hosts'') \<and>
   \<not> promptReached noHostname wd_work (readAction ''/work/file.txt'') \<and>
   checkPermission noHostname wd_work (writeAction ''/etc/hosts'') []
     = (Inr \<lparr> granted = False, reason = Some ''User denied permission'' \<rparr>, wd_work,
        [writeAction ''/etc/hosts'']) \<and>
   checkPermission noHostname wd_work (writeAction ''/etc/hosts'') [writeAction ''/etc/hosts'']
     = (Inr \<lparr> granted = False, reason = Some ''User denied permission'' \<rparr>, wd_work,
        [writeAction ''/etc/hosts'', writeAction ''/etc/hosts'']) \<and>
   snd (checkPermission noHostname wd_work (readAction ''/work/file.txt'') []) = (wd_work, [])"
proof -
  let ?a = "writeAction ''/etc/hosts''"
  let ?deny = "Inr \<lparr> granted = False, reason = Some ''User denied permission'' \<rparr>
                 :: js_error + PermissionResult"
  have d: "\<forall>b w0. fst (promptFn wd_work b w0) = \<lparr> allow = False, remember = False \<rparr>"
    by (simp add: wd_work_def newPermissionManager_def denyPrompt_def)
  have n: "\<forall>b. \<not> (allow (fst (promptFn wd_work b [])) \<and> remember (fst (promptFn wd_work b [])))"
    using d by simp
  have p: "promptReached noHostname wd_work ?a"
    by (simp add: promptReached_def wd_work_def writeAction_def action_def isPathAllowed_def
        newPermissionManager_def)
  have q: "\<not> promptReached noHostname wd_work (readAction ''/work/file.txt'')"
    by (simp add: promptReached_def wd_work_def readAction_def action_def isPathAllowed_def
        newPermissionManager_def)
  note T = denial_never_memoizes[where m=wd_work and hostname=noHostname and a="?a"
      and w="[]"]
  note U = denial_never_memoizes[where m=wd_work and hostname=noHostname
      and a="readAction ''/work/file.txt''" and w="[]"]
  have m1: "fst (snd (checkPermission noHostname wd_work ?a [])) = wd_work"
    by (rule T[THEN conjunct1, THEN mp, OF n])
  have two: "case checkPermission noHostname wd_work ?a [] of (r1, m1, w1) \<Rightarrow>
             case checkPermission noHostname m1 ?a w1 of (r2, m2, w2) \<Rightarrow>
               m1 = wd_work \<and> m2 = wd_work \<and> r2 = r1 \<and>
               (promptReached noHostname wd_work ?a \<longrightarrow> r1 = ?deny \<and> r2 = ?deny)"
    by (rule T[THEN conjunct2, THEN conjunct1, THEN mp, OF d])
  have w1: "snd (snd (checkPermission noHostname wd_work ?a [])) = [?a]"
    by (simp add: wd_work_def writeAction_def checkPermission_def checkFileWrite_def action_def
        isPathAllowed_def newPermissionManager_def set_add_def denyPrompt_def userDenied_def)
  have w2: "snd (snd (checkPermission noHostname wd_work ?a [?a])) = [?a, ?a]"
    by (simp add: wd_work_def writeAction_def checkPermission_def checkFileWrite_def action_def
        isPathAllowed_def newPermissionManager_def set_add_def denyPrompt_def userDenied_def)
  have c1: "checkPermission noHostname wd_work ?a [] = (?deny, wd_work, [?a])"
    using two p w1 by (auto split: prod.splits)
  have c2: "checkPermission noHostname wd_work ?a [?a] = (?deny, wd_work, [?a, ?a])"
    using two p w2 c1 by (auto split: prod.splits)
  have c3: "snd (checkPermission noHostname wd_work (readAction ''/work/file.txt'') []) = (wd_work, [])"
    by (rule U[THEN conjunct2, THEN conjunct2, THEN conjunct2, THEN mp, OF q])
  show ?thesis using p q c1 c2 c3 by simp
qed

subsection \<open>Agent loop\<close>

lemmas agent_fixture_defs = suggestAgent_def stubTool_def throwingTool_def recordingCallbacks_def
  refuse_def call_def bashCall_def scriptedProvider_def toolCallChunk_def textChunk_def chunk_def

lemma agentLoop_dispatch:
  assumes "iterations < maxIterations"
    and "getCompletion cb ag w = (Inr (False, tc # rest), ag', w')"
  shows "agentLoop cb iterations ag w =
        agentLoop cb (Suc iterations) (fst (executeToolCalls cb ag' (tc # rest) w'))
          (snd (executeToolCalls cb ag' (tc # rest) w'))"
  using assms by (subst agentLoop.simps) (simp add: case_prod_beta)

lemma executeToolCall_report:
  "\<exists>c w1. executeToolCall cb ag tc w = (push (toolMessage c tc) ag, onToolCallEnd cb tc c w1)"
proof (cases "find (\<lambda>t. name t = tcName tc) (tools ag)")
  case None
  then show ?thesis by (auto simp: executeToolCall_def report_def)
next
  case (Some tool)
  obtain ok w1 where ra: "requestApproval cb ag tool tc w = (ok, w1)"
    by (cases "requestApproval cb ag tool tc w")
  show ?thesis
  proof (cases ok)
    case False
    with Some ra show ?thesis by (auto simp: executeToolCall_def report_def)
  next
    case True
    obtain r w2 where ex: "execute tool (arguments tc) w1 = (r, w2)"
      by (cases "execute tool (arguments tc) w1")
    from True Some ra ex show ?thesis
      by (cases r) (auto simp: executeToolCall_def runTool_def report_def)
  qed
qed

lemma executeToolCalls_messages:
  "\<exists>cs. length cs = length tcs \<and>
     messages (fst (executeToolCalls cb ag tcs w)) = messages ag @ map2 toolMessage cs tcs"
proof (induction tcs arbitrary: ag w)
  case Nil
  then show ?case by simp
next
  case (Cons tc rest)
  obtain c w1 where st: "executeToolCall cb ag tc w = (push (toolMessage c tc) ag, onToolCallEnd cb tc c w1)"
    using executeToolCall_report[of cb ag tc w] by auto
  obtain cs where cs: "length cs = length rest"
    "messages (fst (executeToolCalls cb (push (toolMessage c tc) ag) rest (onToolCallEnd cb tc c w1)))
       = messages (push (toolMessage c tc) ag) @ map2 toolMessage cs rest"
    using Cons.IH[of "push (toolMessage c tc) ag" "onToolCallEnd cb tc c w1"] by auto
  have "length (c # cs) = length (tc # rest)" using cs by simp
  moreover have "messages (fst (executeToolCalls cb ag (tc # rest) w))
      = messages ag @ map2 toolMessage (c # cs) (tc # rest)"
    using st cs by (simp add: push_def)
  ultimately show ?case by blast
qed

lemma consumeStream_proposals:
  "fst (consumeStream cb stream t tcs pushed w) = None \<Longrightarrow>
   fst (snd (consumeStream cb stream t tcs pushed w)) = tcs @ proposals stream"
proof (induction stream arbitrary: t tcs pushed w)
  case Nil
  then show ?case by simp
next
  case (Cons c rest)
  show ?case
  proof (cases "chunkType c")
    case C_text
    with Cons show ?thesis
      by (cases "chunkContent c") auto
  next
    case C_tool_call
    with Cons show ?thesis
      by (cases "toolCall c") auto
  next
    case C_tool_call_delta
    with Cons show ?thesis by auto
  next
    case C_done
    with Cons show ?thesis by auto
  next
    case C_error
    with Cons show ?thesis
      by (cases "chunkError c") auto
  qed
qed

lemma consumeStream_firstError:
  "fst (consumeStream cb stream t tcs pushed w) = firstError stream"
proof (induction stream arbitrary: t tcs pushed w)
  case Nil
  then show ?case by simp
next
  case (Cons c rest)
  show ?case
  proof (cases "chunkType c")
    case C_text
    with Cons show ?thesis
      by (cases "chunkContent c") auto
  next
    case C_tool_call
    with Cons show ?thesis
      by (cases "toolCall c") auto
  next
    case C_tool_call_delta
    with Cons show ?thesis by auto
  next
    case C_done
    with Cons show ?thesis by auto
  next
    case C_error
    with Cons show ?thesis
      by (cases "chunkError c") auto
  qed
qed

lemma assistantMessages_no_tool:
  "filter (\<lambda>m. role m = R_tool) (assistantMessages pushed tcs) = []"
  by (induction pushed) (auto simp: assistantMessages_def)

lemma getCompletion_turn:
  assumes "provider ag (messages ag) w = (stream, w1)"
  shows "\<exists>ag1 w2. getCompletion cb ag w =
      ((case firstError stream of Some e \<Rightarrow> Inl e
        | None \<Rightarrow> Inr (proposals stream = [], proposals stream)), ag1, w2) \<and>
      filter (\<lambda>m. role m = R_tool) (messages ag1) = filter (\<lambda>m. role m = R_tool) (messages ag)"
proof -
  obtain th cs pushed w2 where c: "consumeStream cb stream [] [] [] w1 = (th, cs, pushed, w2)"
    by (cases "consumeStream cb stream [] [] [] w1") auto
  have th: "th = firstError stream"
    using consumeStream_firstError[of cb stream "[]" "[]" "[]" w1] c by simp
  have cs: "cs = proposals stream" if "firstError stream = None"
    using consumeStream_proposals[of cb stream "[]" "[]" "[]" w1] c th that by simp
  show ?thesis
    using assms c th cs
    by (auto simp: getCompletion_def assistantMessages_no_tool split: option.splits)
qed

text \<open>
  Claim C8, as stated (every proposed tool call yields exactly one tool message), fails for
  a turn whose stream carries an error after a proposal. \<open>getCompletion\<close> announces each
  \<open>tool_call\<close> chunk with \<open>onToolCallStart\<close> as it reads it and throws at the first
  \<open>error\<close> chunk; \<open>run\<close> catches, reports the error and leaves the loop, so
  \<open>executeToolCalls\<close> is never reached. In the run below the Anthropic adapter delivers
  the call \<open>toolu_1\<close> and then the error of the second, malformed tool use: the call is
  announced, the run ends with \<open>onError\<close>, and the history holds the user's message only.
\<close>

theorem proposal_before_error_gets_no_tool_message:
  "proposals (anthropicChat sampleParse halfParsed None)
     = [\<lparr> tcId = ''toolu_1'', tcName = ''read_file'', arguments = JObject [] \<rparr>] \<and>
   snd (run ''go'' (recordingCallbacks (Some refuse)) halfParsedAgent [])
     = [Requested 1,
        OnToolCallStart \<lparr> tcId = ''toolu_1'', tcName = ''read_file'', arguments = JObject [] \<rparr>,
        OnError ''Failed to parse tool arguments: {oops''] \<and>
   messages (fst (run ''go'' (recordingCallbacks (Some refuse)) halfParsedAgent []))
     = [\<lparr> role = R_user, content = ''go'', toolCallId = None, toolCalls = None \<rparr>]"
  by code_simp


text \<open>
  Claim C8, amended (one tool message per proposal, in proposal order, in a turn whose
  stream carries no error). Whatever the tools, the callbacks and the mode,
  \<open>executeToolCalls\<close> appends to the history exactly one message per call and nothing
  else: the new messages are \<open>toolMessage c tc\<close> for the calls \<open>tc\<close> in their order, so
  their \<open>toolCallId\<close>s are the calls' ids in order and their roles are all \<open>tool\<close>. In a
  turn whose stream has no \<open>error\<close> chunk carrying an error, \<open>getCompletion\<close> returns the
  \<open>tool_call\<close> chunks of the stream in their order, and when there is one the loop hands
  them all to \<open>executeToolCalls\<close> before its next iteration. In a turn whose stream has
  such a chunk, \<open>getCompletion\<close> throws its error, no tool message is added to the
  history, and the loop ends with \<open>onError\<close>: the proposals of that turn get no tool
  message.
\<close>

theorem tool_messages_follow_proposals:
  "(\<exists>cs. length cs = length tcs \<and>
     messages (fst (executeToolCalls cb ag tcs w)) = messages ag @ map2 toolMessage cs tcs) \<and>
   map toolCallId (drop (length (messages ag)) (messages (fst (executeToolCalls cb ag tcs w))))
     = map (\<lambda>tc. Some (tcId tc)) tcs \<and>
   map role (drop (length (messages ag)) (messages (fst (executeToolCalls cb ag tcs w))))
     = replicate (length tcs) R_tool \<and>
   (provider agt (messages agt) v = (stream, va) \<and> firstError stream = None \<longrightarrow>
      (\<exists>ag1 w1.
         getCompletion cb agt v = (Inr (proposals stream = [], proposals stream), ag1, w1) \<and>
         map toolCallId (drop (length (messages ag1))
             (messages (fst (executeToolCalls cb ag1 (proposals stream) w1))))
           = map (\<lambda>tc. Some (tcId tc)) (proposals stream) \<and>
         map role (drop (length (messages ag1))
             (messages (fst (executeToolCalls cb ag1 (proposals stream) w1))))
           = replicate (length (proposals stream)) R_tool \<and>
         (iterations < maxIterations \<and> proposals stream \<noteq> [] \<longrightarrow>
            agentLoop cb iterations agt v =
              agentLoop cb (Suc iterations)
                (fst (executeToolCalls cb ag1 (proposals stream) w1))
                (snd (executeToolCalls cb ag1 (proposals stream) w1))))) \<and>
   (provider agt (messages agt) v = (stream, va) \<and> firstError stream = Some e \<longrightarrow>
      (\<exists>ag1 w1.
         getCompletion cb agt v = (Inl e, ag1, w1) \<and>
         filter (\<lambda>m. role m = R_tool) (messages ag1)
           = filter (\<lambda>m. role m = R_tool) (messages agt) \<and>
         (iterations < maxIterations \<longrightarrow>
            agentLoop cb iterations agt v = (Suc iterations, ag1, onError cb e w1))))"
proof -
  have ids: "map toolCallId (drop (length (messages a)) (messages (fst (executeToolCalls cb a ts u))))
      = map (\<lambda>tc. Some (tcId tc)) ts"
    and rs: "map role (drop (length (messages a)) (messages (fst (executeToolCalls cb a ts u))))
      = replicate (length ts) R_tool" for a ts u
  proof -
    obtain cs where cs: "length cs = length ts"
       "messages (fst (executeToolCalls cb a ts u)) = messages a @ map2 toolMessage cs ts"
      using executeToolCalls_messages[of ts cb a u] by auto
    have i: "map toolCallId (map2 toolMessage cs ts) = map (\<lambda>tc. Some (tcId tc)) ts"
      using cs(1) by (induction cs ts rule: list_induct2) (simp_all add: toolMessage_def)
    have r: "map role (map2 toolMessage cs ts) = replicate (length ts) R_tool"
      using cs(1) by (induction cs ts rule: list_induct2) (simp_all add: toolMessage_def)
    show "map toolCallId (drop (length (messages a)) (messages (fst (executeToolCalls cb a ts u))))
      = map (\<lambda>tc. Some (tcId tc)) ts"
      using cs i by simp
    show "map role (drop (length (messages a)) (messages (fst (executeToolCalls cb a ts u))))
      = replicate (length ts) R_tool"
      using cs r by simp
  qed
  have read: "provider agt (messages agt) v = (stream, va) \<and> firstError stream = None \<longrightarrow>
      (\<exists>ag1 w1.
         getCompletion cb agt v = (Inr (proposals stream = [], proposals stream), ag1, w1) \<and>
         map toolCallId (drop (length (messages ag1))
             (messages (fst (executeToolCalls cb ag1 (proposals stream) w1))))
           = map (\<lambda>tc. Some (tcId tc)) (proposals stream) \<and>
         map role (drop (length (messages ag1))
             (messages (fst (executeToolCalls cb ag1 (proposals stream) w1))))
           = replicate (length (proposals stream)) R_tool \<and>
         (iterations < maxIterations \<and> proposals stream \<noteq> [] \<longrightarrow>
            agentLoop cb iterations agt v =
              agentLoop cb (Suc iterations)
                (fst (executeToolCalls cb ag1 (proposals stream) w1))
                (snd (executeToolCalls cb ag1 (proposals stream) w1))))"
  proof
    assume h: "provider agt (messages agt) v = (stream, va) \<and> firstError stream = None"
    then obtain ag1 w1 where
      g: "getCompletion cb agt v = (Inr (proposals stream = [], proposals stream), ag1, w1)"
      using getCompletion_turn[of agt v stream va cb] by auto
    have step: "agentLoop cb iterations agt v =
              agentLoop cb (Suc iterations)
                (fst (executeToolCalls cb ag1 (proposals stream) w1))
                (snd (executeToolCalls cb ag1 (proposals stream) w1))"
      if lt: "iterations < maxIterations" and ne: "proposals stream \<noteq> []"
    proof -
      obtain tc rest where p: "proposals stream = tc # rest"
        using ne by (cases "proposals stream") auto
      from agentLoop_dispatch[of iterations cb agt v tc rest ag1 w1] lt g p
      show ?thesis by simp
    qed
    show "\<exists>ag1 w1.
         getCompletion cb agt v = (Inr (proposals stream = [], proposals stream), ag1, w1) \<and>
         map toolCallId (drop (length (messages ag1))
             (messages (fst (executeToolCalls cb ag1 (proposals stream) w1))))
           = map (\<lambda>tc. Some (tcId tc)) (proposals stream) \<and>
         map role (drop (length (messages ag1))
             (messages (fst (executeToolCalls cb ag1 (proposals stream) w1))))
           = replicate (length (proposals stream)) R_tool \<and>
         (iterations < maxIterations \<and> proposals stream \<noteq> [] \<longrightarrow>
            agentLoop cb iterations agt v =
              agentLoop cb (Suc iterations)
                (fst (executeToolCalls cb ag1 (proposals stream) w1))
                (snd (executeToolCalls cb ag1 (proposals stream) w1)))"
      using g ids[of ag1 "proposals stream" w1] rs[of ag1 "proposals stream" w1] step
      by (intro exI[of _ ag1] exI[of _ w1]) simp
  qed
  have fail: "provider agt (messages agt) v = (stream, va) \<and> firstError stream = Some e \<longrightarrow>
      (\<exists>ag1 w1.
         getCompletion cb agt v = (Inl e, ag1, w1) \<and>
         filter (\<lambda>m. role m = R_tool) (messages ag1)
           = filter (\<lambda>m. role m = R_tool) (messages agt) \<and>
         (iterations < maxIterations \<longrightarrow>
            agentLoop cb iterations agt v = (Suc iterations, ag1, onError cb e w1)))"
  proof
    assume h: "provider agt (messages agt) v = (stream, va) \<and> firstError stream = Some e"
    then obtain ag1 w1 where
      g: "getCompletion cb agt v = (Inl e, ag1, w1)"
        "filter (\<lambda>m. role m = R_tool) (messages ag1) = filter (\<lambda>m. role m = R_tool) (messages agt)"
      using getCompletion_turn[of agt v stream va cb] by auto
    have "agentLoop cb iterations agt v = (Suc iterations, ag1, onError cb e w1)"
      if "iterations < maxIterations"
      using that g(1) by (subst agentLoop.simps) simp
    with g show "\<exists>ag1 w1.
         getCompletion cb agt v = (Inl e, ag1, w1) \<and>
         filter (\<lambda>m. role m = R_tool) (messages ag1)
           = filter (\<lambda>m. role m = R_tool) (messages agt) \<and>
         (iterations < maxIterations \<longrightarrow>
            agentLoop cb iterations agt v = (Suc iterations, ag1, onError cb e w1))"
      by (intro exI[of _ ag1] exI[of _ w1]) simp
  qed
  show ?thesis
    using executeToolCalls_messages[of tcs cb ag w] ids[of ag tcs w] rs[of ag tcs w] read fail
    by blast
qed

theorem tool_messages_follow_proposals_witness:
  "firstError [toolCallChunk bashCall, chunk C_done] = None \<and>
   proposals [toolCallChunk bashCall, chunk C_done] = [bashCall] \<and>
   (\<exists>ag1 w1.
      getCompletion (recordingCallbacks (Some refuse)) asked [] = (Inr (False, [bashCall]), ag1, w1) \<and>
      map toolCallId (drop (length (messages ag1))
          (messages (fst (executeToolCalls (recordingCallbacks (Some refuse)) ag1 [bashCall] w1))))
        = [Some ''call_1'']) \<and>
   firstError (anthropicChat sampleParse halfParsed None)
     = Some ''Failed to parse tool arguments: {oops'' \<and>
   (\<exists>ag1 w1.
      getCompletion (recordingCallbacks (Some refuse))
          (push \<lparr> role = R_user, content = ''go'', toolCallId = None, toolCalls = None \<rparr>
             halfParsedAgent) []
        = (Inl ''Failed to parse tool arguments: {oops'', ag1, w1) \<and>
      filter (\<lambda>m. role m = R_tool) (messages ag1) = [])"
proof -
  let ?cb = "recordingCallbacks (Some refuse)"
  let ?s = "[toolCallChunk bashCall, chunk C_done]"
  let ?h = "push \<lparr> role = R_user, content = ''go'', toolCallId = None, toolCalls = None \<rparr>
             halfParsedAgent"
  let ?e = "''Failed to parse tool arguments: {oops''"
  have pr: "provider asked (messages asked) [] = (?s, [Requested 1])"
    by (simp add: asked_def push_def agent_fixture_defs)
  have fe: "firstError ?s = None"
    by (simp add: toolCallChunk_def chunk_def)
  have ps: "proposals ?s = [bashCall]"
    by (simp add: toolCallChunk_def chunk_def)
  have ph: "provider ?h (messages ?h) []
      = (anthropicChat sampleParse halfParsed None, [Requested 1])"
    by (simp add: halfParsedAgent_def push_def suggestAgent_def)
  have fh: "firstError (anthropicChat sampleParse halfParsed None) = Some ?e"
    by code_simp
  have mh: "filter (\<lambda>m. role m = R_tool) (messages ?h) = []"
    by (simp add: halfParsedAgent_def push_def suggestAgent_def)
  note T = tool_messages_follow_proposals[where cb="?cb" and ag=asked and w="[]" and tcs="[]"
      and agt=asked and v="[]" and stream="?s" and va="[Requested 1]" and iterations=0
      and e="[]"]
  note U = tool_messages_follow_proposals[where cb="?cb" and ag=asked and w="[]" and tcs="[]"
      and agt="?h" and v="[]" and stream="anthropicChat sampleParse halfParsed None"
      and va="[Requested 1]" and iterations=0 and e="?e"]
  have tid: "tcId bashCall = ''call_1''"
    by (simp add: bashCall_def)
  from T[THEN conjunct2, THEN conjunct2, THEN conjunct2, THEN conjunct1, THEN mp,
      OF conjI[OF pr fe]]
  obtain ag1 w1 where
    g: "getCompletion ?cb asked [] = (Inr (proposals ?s = [], proposals ?s), ag1, w1)" and
    i: "map toolCallId (drop (length (messages ag1))
          (messages (fst (executeToolCalls ?cb ag1 (proposals ?s) w1))))
        = map (\<lambda>tc. Some (tcId tc)) (proposals ?s)"
    by blast
  have a: "\<exists>ag1 w1.
      getCompletion ?cb asked [] = (Inr (False, [bashCall]), ag1, w1) \<and>
      map toolCallId (drop (length (messages ag1))
          (messages (fst (executeToolCalls ?cb ag1 [bashCall] w1))))
        = [Some ''call_1'']"
    using g[unfolded ps] i[unfolded ps] by (intro exI[of _ ag1] exI[of _ w1]) (simp add: tid)
  from U[THEN conjunct2, THEN conjunct2, THEN conjunct2, THEN conjunct2, THEN mp,
      OF conjI[OF ph fh]]
  obtain ag2 w2 where
    ge: "getCompletion ?cb ?h [] = (Inl ?e, ag2, w2)" and
    fe2: "filter (\<lambda>m. role m = R_tool) (messages ag2) = filter (\<lambda>m. role m = R_tool) (messages ?h)"
    by blast
  have b: "\<exists>ag1 w1.
      getCompletion ?cb ?h [] = (Inl ?e, ag1, w1) \<and>
      filter (\<lambda>m. role m = R_tool) (messages ag1) = []"
    using ge fe2[unfolded mh] by (intro exI[of _ ag2] exI[of _ w2]) simp
  show ?thesis using fe ps a fh b by (intro conjI)
qed

text \<open>
  Claim C5 (no capability failure is fatal). For the first call of a batch: a name that
  resolves to no tool, a refused approval and an exception of \<open>execute\<close> each append one
  tool message (\<open>Tool not found: <name>\<close>, the fixed text \<open>Tool execution denied by user\<close>,
  \<open>Tool execution failed: <message>\<close>), call \<open>onToolCallEnd\<close> with it, and go on with the
  remaining calls; \<open>executeToolCalls\<close> has no failing outcome, so the loop of \<open>run\<close> then
  goes on to its next turn.
\<close>

theorem capability_failures_are_absorbed:
  fixes cb :: "'w AgentCallbacks"
  shows
  "(find (\<lambda>t. name t = tcName tc) (tools ag) = None \<longrightarrow>
      executeToolCalls cb ag (tc # rest) w =
        executeToolCalls cb (push (toolMessage (''Tool not found: '' @ tcName tc) tc) ag) rest
          (onToolCallEnd cb tc (''Tool not found: '' @ tcName tc) w)) \<and>
   (find (\<lambda>t. name t = tcName tc) (tools ag) = Some tool \<and>
    onPermissionRequest cb = Some ask \<and> configApprovalMode ag \<noteq> FULL_AUTO \<and>
    toolNeedsApproval (configApprovalMode ag) (name tool) (arguments tc) \<and>
    ask tc w = (d, va) \<and> \<not> allow d \<longrightarrow>
      executeToolCalls cb ag (tc # rest) w =
        executeToolCalls cb (push (toolMessage ''Tool execution denied by user'' tc) ag) rest
          (onToolCallEnd cb tc ''Tool execution denied by user'' va)) \<and>
   (find (\<lambda>t. name t = tcName tc) (tools ag) = Some tool \<and>
    requestApproval cb ag tool tc w = (True, va) \<and>
    execute tool (arguments tc) va = (Threw msg, vb) \<longrightarrow>
      executeToolCalls cb ag (tc # rest) w =
        executeToolCalls cb (push (toolMessage (''Tool execution failed: '' @ msg) tc) ag) rest
          (onToolCallEnd cb tc (''Tool execution failed: '' @ msg) vb)) \<and>
   (iterations < maxIterations \<and> getCompletion cb ag w = (Inr (False, tc # rest), ag', w') \<longrightarrow>
      agentLoop cb iterations ag w =
        agentLoop cb (Suc iterations) (fst (executeToolCalls cb ag' (tc # rest) w'))
          (snd (executeToolCalls cb ag' (tc # rest) w')))"
proof (intro conjI impI)
  assume "find (\<lambda>t. name t = tcName tc) (tools ag) = None"
  then show "executeToolCalls cb ag (tc # rest) w =
        executeToolCalls cb (push (toolMessage (''Tool not found: '' @ tcName tc) tc) ag) rest
          (onToolCallEnd cb tc (''Tool not found: '' @ tcName tc) w)"
    by (simp add: executeToolCall_def report_def)
next
  assume "find (\<lambda>t. name t = tcName tc) (tools ag) = Some tool \<and>
    onPermissionRequest cb = Some ask \<and> configApprovalMode ag \<noteq> FULL_AUTO \<and>
    toolNeedsApproval (configApprovalMode ag) (name tool) (arguments tc) \<and>
    ask tc w = (d, va) \<and> \<not> allow d"
  then show "executeToolCalls cb ag (tc # rest) w =
        executeToolCalls cb (push (toolMessage ''Tool execution denied by user'' tc) ag) rest
          (onToolCallEnd cb tc ''Tool execution denied by user'' va)"
    by (simp add: executeToolCall_def requestApproval_def report_def)
next
  assume "find (\<lambda>t. name t = tcName tc) (tools ag) = Some tool \<and>
    requestApproval cb ag tool tc w = (True, va) \<and>
    execute tool (arguments tc) va = (Threw msg, vb)"
  then show "executeToolCalls cb ag (tc # rest) w =
        executeToolCalls cb (push (toolMessage (''Tool execution failed: '' @ msg) tc) ag) rest
          (onToolCallEnd cb tc (''Tool execution failed: '' @ msg) vb)"
    by (simp add: executeToolCall_def runTool_def report_def)
next
  assume "iterations < maxIterations \<and> getCompletion cb ag w = (Inr (False, tc # rest), ag', w')"
  then show "agentLoop cb iterations ag w =
        agentLoop cb (Suc iterations) (fst (executeToolCalls cb ag' (tc # rest) w'))
          (snd (executeToolCalls cb ag' (tc # rest) w'))"
    by (subst agentLoop.simps) (simp add: case_prod_beta)
qed


theorem capability_failures_are_absorbed_witness:
  "executeToolCalls (recordingCallbacks (Some refuse)) suggestAgent
       [call ''a'' ''nope'', bashCall] [] =
     executeToolCalls (recordingCallbacks (Some refuse))
       (push (toolMessage ''Tool not found: nope'' (call ''a'' ''nope'')) suggestAgent)
       [bashCall] [OnToolCallEnd (call ''a'' ''nope'') ''Tool not found: nope''] \<and>
   executeToolCalls (recordingCallbacks (Some refuse)) suggestAgent [bashCall, call ''b'' ''edit_file''] [] =
     executeToolCalls (recordingCallbacks (Some refuse))
       (push (toolMessage ''Tool execution denied by user'' bashCall) suggestAgent)
       [call ''b'' ''edit_file'']
       [OnPermissionRequest bashCall, OnToolCallEnd bashCall ''Tool execution denied by user''] \<and>
   executeToolCalls (recordingCallbacks None) suggestAgent [call ''b'' ''edit_file'', bashCall] [] =
     executeToolCalls (recordingCallbacks None)
       (push (toolMessage ''Tool execution failed: disk full'' (call ''b'' ''edit_file'')) suggestAgent)
       [bashCall]
       [Executed ''edit_file'' (JObject []),
        OnToolCallEnd (call ''b'' ''edit_file'') ''Tool execution failed: disk full''] \<and>
   snd (snd (agentLoop (recordingCallbacks (Some refuse)) 0 asked [])) =
     [Requested 1, OnToolCallStart bashCall, OnPermissionRequest bashCall,
      OnToolCallEnd bashCall ''Tool execution denied by user'', Requested 3, OnText ''ok'', OnDone]"
proof -
  let ?cb = "recordingCallbacks (Some refuse)"
  let ?A = "fst (snd (getCompletion ?cb asked []))"
  let ?W = "snd (snd (getCompletion ?cb asked []))"
  have n: "find (\<lambda>t. name t = tcName (call ''a'' ''nope'')) (tools suggestAgent) = None"
    by (simp add: agent_fixture_defs)
  have p1: "executeToolCalls ?cb suggestAgent [call ''a'' ''nope'', bashCall] [] =
     executeToolCalls ?cb
       (push (toolMessage ''Tool not found: nope'' (call ''a'' ''nope'')) suggestAgent)
       [bashCall] [OnToolCallEnd (call ''a'' ''nope'') ''Tool not found: nope'']"
    using capability_failures_are_absorbed[where cb="?cb" and ag=suggestAgent
        and tc="call ''a'' ''nope''" and rest="[bashCall]" and w="[]"] n
    by (simp add: agent_fixture_defs)
  have b: "find (\<lambda>t. name t = tcName bashCall) (tools suggestAgent) = Some (stubTool ''bash'' ''done'')"
    by (simp add: agent_fixture_defs)
  have p2: "executeToolCalls ?cb suggestAgent [bashCall, call ''b'' ''edit_file''] [] =
     executeToolCalls ?cb
       (push (toolMessage ''Tool execution denied by user'' bashCall) suggestAgent)
       [call ''b'' ''edit_file'']
       [OnPermissionRequest bashCall, OnToolCallEnd bashCall ''Tool execution denied by user'']"
    using capability_failures_are_absorbed[where cb="?cb" and ag=suggestAgent
        and tc=bashCall and rest="[call ''b'' ''edit_file'']" and w="[]"
        and tool="stubTool ''bash'' ''done''"
        and ask="\<lambda>tc w. (refuse tc, w @ [OnPermissionRequest tc])"
        and d="\<lparr> allow = False, remember = False \<rparr>" and va="[OnPermissionRequest bashCall]"] b
    by (simp add: agent_fixture_defs toolNeedsApproval_def)
  have e: "find (\<lambda>t. name t = tcName (call ''b'' ''edit_file'')) (tools suggestAgent)
      = Some (throwingTool ''edit_file'' ''disk full'')"
    by (simp add: agent_fixture_defs)
  have p3: "executeToolCalls (recordingCallbacks None) suggestAgent [call ''b'' ''edit_file'', bashCall] [] =
     executeToolCalls (recordingCallbacks None)
       (push (toolMessage ''Tool execution failed: disk full'' (call ''b'' ''edit_file'')) suggestAgent)
       [bashCall]
       [Executed ''edit_file'' (JObject []),
        OnToolCallEnd (call ''b'' ''edit_file'') ''Tool execution failed: disk full'']"
    using capability_failures_are_absorbed[where cb="recordingCallbacks None" and ag=suggestAgent
        and tc="call ''b'' ''edit_file''" and rest="[bashCall]" and w="[]"
        and tool="throwingTool ''edit_file'' ''disk full''" and va="[]"
        and msg="''disk full''" and vb="[Executed ''edit_file'' (JObject [])]"] e
    by (simp add: agent_fixture_defs requestApproval_def)
  have gc: "getCompletion ?cb asked [] = (Inr (False, [bashCall]), ?A, ?W)"
    by (rule prod_eqI) (code_simp, simp)
  have it: "0 < maxIterations"
    by (simp add: maxIterations_def)
  have step: "agentLoop ?cb 0 asked [] =
      agentLoop ?cb (Suc 0) (fst (executeToolCalls ?cb ?A [bashCall] ?W))
        (snd (executeToolCalls ?cb ?A [bashCall] ?W))"
    using capability_failures_are_absorbed[where cb="?cb" and ag=asked and w="[]"
        and iterations=0 and tc=bashCall and rest="[]" and ag'="?A" and w'="?W"] it gc
    by blast
  have next_turn: "snd (snd (agentLoop ?cb (Suc 0) (fst (executeToolCalls ?cb ?A [bashCall] ?W))
        (snd (executeToolCalls ?cb ?A [bashCall] ?W)))) =
     [Requested 1, OnToolCallStart bashCall, OnPermissionRequest bashCall,
      OnToolCallEnd bashCall ''Tool execution denied by user'', Requested 3, OnText ''ok'', OnDone]"
    by code_simp
  have p4: "snd (snd (agentLoop ?cb 0 asked [])) =
     [Requested 1, OnToolCallStart bashCall, OnPermissionRequest bashCall,
      OnToolCallEnd bashCall ''Tool execution denied by user'', Requested 3, OnText ''ok'', OnDone]"
    using step next_turn by simp
  show ?thesis using p1 p2 p3 p4 by blast
qed

text \<open>
  Claim C2 (the cap-exceeded report is kept for runs that exceed the cap). The test after
  the loop is \<open>iterations >= maxIterations\<close>, which also holds when the loop was left by
  \<open>break\<close> in its 20th turn: the run of \<open>lateAgent\<close>, whose model answers without tool
  calls on the 20th request, calls \<open>onDone\<close> and then \<open>onError\<close> with
  \<open>Max iterations reached\<close>.
\<close>

theorem done_on_iteration_20_also_reports_cap:
  "fst (agentLoop (recordingCallbacks None) 0
          (push \<lparr> role = R_user, content = ''go'', toolCallId = None, toolCalls = None \<rparr> lateAgent) [])
     = maxIterations \<and>
   reports (snd (run ''go'' (recordingCallbacks None) lateAgent []))
     = [OnDone, OnError ''Max iterations reached'']"
  by code_simp

text \<open>
  Claim C3 (every capability that is not read-only needs approval outside full-auto) does
  not hold of the code. \<open>toolNeedsApproval\<close> answers \<open>False\<close> for every name outside its
  list of \<open>write_file\<close>, \<open>edit_file\<close> and \<open>bash\<close>, in suggest mode as in auto-edit mode,
  although its own comment says that write and execute operations always need approval
  unless in full-auto. So in suggest mode a call of the registered tool \<open>web_fetch\<close> is
  executed with the approval callback (here one that refuses everything) never asked, and
  the same answer is given for the name of an externally sourced tool.
\<close>

theorem web_fetch_runs_unapproved:
  "\<not> toolNeedsApproval SUGGEST ''web_fetch'' (arguments fetchCall) \<and>
   \<not> toolNeedsApproval AUTO_EDIT ''mcp__files__delete'' (JObject []) \<and>
   snd (executeToolCalls (recordingCallbacks (Some refuse)) suggestAgent [fetchCall] [])
     = [Executed ''web_fetch'' (arguments fetchCall), OnToolCallEnd fetchCall ''page'']"
  by (simp add: toolNeedsApproval_def executeToolCall_def requestApproval_def runTool_def report_def
      recordingCallbacks_def suggestAgent_def fetchCall_def stubTool_def throwingTool_def)

subsection \<open>Cancellation\<close>

text \<open>
  Claim C6 (once cancellation is raised no new tool dispatch and no new provider request
  begins) does not hold of the code. \<open>cancelOperation\<close> sets \<open>cancelledRef\<close>, prints
  \<open>(cancelled)\<close> and shows the input again; the loop of \<open>run\<close> and \<open>executeToolCalls\<close>
  never read the flag, which only the callbacks of the component test. In the session below
  the user submits \<open>go\<close>, the model proposes the tools \<open>slow\<close> and \<open>fast\<close>, and the user
  presses Escape while \<open>slow\<close> runs and does nothing else. The flag is raised and stays
  raised, \<open>slow\<close> finishes and its result is recorded; but \<open>fast\<close> is dispatched all the
  same, its result is recorded too, and the provider is asked again with the history of
  four messages, whose answer is pushed as well.
\<close>

theorem cancelled_run_keeps_dispatching:
  "log (snd (run ''go'' (appCallbacks nobody) sessionAgent (beginSubmit ''go'' idle)))
     = [Requested 1, Executed ''slow'' (JObject []), CancelRaised,
        Executed ''fast'' (JObject []), Requested 4] \<and>
   cancelledRef (snd (run ''go'' (appCallbacks nobody) sessionAgent (beginSubmit ''go'' idle))) \<and>
   map (\<lambda>m. (role m, content m, toolCallId m))
       (messages (fst (run ''go'' (appCallbacks nobody) sessionAgent (beginSubmit ''go'' idle))))
     = [(R_user, ''go'', None), (R_assistant, [], None), (R_tool, ''one'', Some ''c1''),
        (R_tool, ''two'', Some ''c2''), (R_assistant, ''ok'', None)]"
  by code_simp

text \<open>What the log holds from the cancellation on: a tool dispatch and a provider request.\<close>

theorem cancelled_run_keeps_dispatching_witness:
  "dropWhile (\<lambda>e. e \<noteq> CancelRaised)
     (log (snd (run ''go'' (appCallbacks nobody) sessionAgent (beginSubmit ''go'' idle))))
     = [CancelRaised, Executed ''fast'' (JObject []), Requested 4]"
  using cancelled_run_keeps_dispatching by simp

subsection \<open>Provider adapters\<close>

text \<open>
  Claim C4 (a stream ends with exactly one of \<open>done\<close> and \<open>error\<close>). In both structured
  adapters the \<open>catch\<close> around \<open>JSON.parse\<close> yields the \<open>error\<close> chunk and the loop goes
  on: for a tool call whose arguments do not parse, the stream of \<open>AnthropicProvider.chat\<close>
  and the stream of \<open>OpenAIProvider.chat\<close> hold the \<open>error\<close> chunk and, after it, the
  \<open>done\<close> chunk.
\<close>

theorem malformed_arguments_yield_error_then_done:
  "anthropicChat sampleParse anthropicMalformed None =
     [deltaChunk ''{oops'', errorChunk ''Failed to parse tool arguments: {oops'', chunk C_done] \<and>
   openaiChat sampleParse openaiMalformed None =
     [deltaChunk ''{oops'', errorChunk ''Failed to parse tool arguments: {oops'', chunk C_done]"
  by (simp add: anthropicChat_def openaiChat_def anthropicMalformed_def openaiMalformed_def
      completedToolCall_def orEmptyObject_def sampleParse_def thrown_def applyToolCallDelta_def
      given_def orEmpty_def readPayload_def deletePayload_def)













end
